theory Spec2Isabelle
  imports Main "HOL-Library.Sublist"
begin

section \<open>Data model\<close>

text \<open>
  The tables of \<^verbatim>\<open>backend/models/database.py\<close> and the request schema of
  \<^verbatim>\<open>backend/models/schemas.py\<close>, restricted to the columns that the ledger
  (\<^verbatim>\<open>UserService.deduct_points\<close>, \<^verbatim>\<open>UserService.add_points\<close>) and the
  orchestrator (\<^verbatim>\<open>GenerationService.generate_image\<close>) read or write.
  Python integers are unbounded, hence \<open>int\<close>. A decoded JSON document is a value of
  \<open>json\<close>; \<open>JNull\<close> also stands for Python's \<^verbatim>\<open>None\<close> where a field holds a
  value taken from a provider response (\<^verbatim>\<open>json.loads\<close> maps null to None). An object
  is an association list in document order; on a duplicate key Python keeps the last
  binding, which is why lookups go through the reversed list.
  Numbers are integers; a JSON number with a fraction is outside the model.
\<close>

datatype json =
    JNull
  | JBool bool
  | JNum int
  | JStr string
  | JArr "json list"
  | JObj "(string \<times> json) list"

text \<open>The values of the \<^verbatim>\<open>status\<close> column (\<^verbatim>\<open># pending, processing, completed, failed\<close>).\<close>

datatype status = Pending | Processing | Completed | Failed

text \<open>
  The \<^verbatim>\<open>detail\<close> texts of the HTTP errors raised on the modelled paths:
  \<open>User_not_found\<close> is \<^verbatim>\<open>"User not found"\<close> (404, \<^verbatim>\<open>get_user_by_id\<close>),
  \<open>Points_not_enough\<close> is the Chinese text of the balance precondition of
  \<^verbatim>\<open>generate_image\<close> (400), \<open>Api_config_not_set\<close> the Chinese text of its
  configuration precondition (500), \<open>Insufficient_points\<close> is
  \<^verbatim>\<open>"Insufficient points"\<close> (400, \<^verbatim>\<open>deduct_points\<close>).
  \<open>PyError\<close> is any other Python exception, named by its class or message.
\<close>

datatype detail = User_not_found | Points_not_enough | Api_config_not_set | Insufficient_points

datatype exn = HTTPException int detail | PyError string

text \<open>
  The error texts stored in \<^verbatim>\<open>Generation.error_message\<close>. The f-strings of the
  source are kept symbolic: \<open>Api_call_failed c t\<close> is
  \<^verbatim>\<open>f"API call failed: {status_code} - {error_text}"\<close>, \<open>Api_call_error e\<close> is
  \<^verbatim>\<open>f"API call error: {str(e)}"\<close>, \<open>Exception_text e\<close> is \<^verbatim>\<open>str(e)\<close>.
\<close>

datatype message =
    No_image_data_in_response
  | Api_call_failed int json
  | Api_call_error exn
  | Exception_text exn

record user =
  username :: string
  points :: int

record api_config =
  api_key :: string
  api_base_url :: string
  optimizer_model :: "string option"
  system_prompt :: "string option"
  is_active :: bool

record generation =
  user_id :: int
  prompt :: string
  optimized_prompt :: "string option"
  model :: string
  image_url :: json
  base64_image :: json
  points_used :: int
  status :: status
  error_message :: "message option"
  api_response :: "json option"
  completed_at :: "nat option"

text \<open>
  \<^verbatim>\<open>GenerationRequest\<close>. Its fields \<^verbatim>\<open>prompt\<close>, \<^verbatim>\<open>size\<close>,
  \<^verbatim>\<open>optimizer_model\<close> and \<^verbatim>\<open>system_prompt\<close> carry the prefix \<open>req_\<close> here,
  because the same names are columns above (or, for \<open>size\<close>, a constant of HOL).
\<close>

record request =
  req_prompt :: string
  enable_optimization :: bool
  models :: "string list"
  req_size :: string
  output_format :: string
  image_file :: "string option"
  req_optimizer_model :: "string option"
  req_system_prompt :: "string option"

text \<open>
  What one call observes of the outside, in order: a successful ledger mutation
  (\<open>Debit\<close>, \<open>Credit\<close>: user id and amount), the optimizer's POST to
  \<^verbatim>\<open>/v1/chat/completions\<close> (model, system prompt, user prompt) and one entry into the
  \<^verbatim>\<open>try\<close> block of \<^verbatim>\<open>_call_ai_api\<close> per model (edit mode or not, model, prompt
  sent).
\<close>

datatype event =
    Debit int int
  | Credit int int
  | Optimizer_call string string string
  | Image_call bool string string

text \<open>
  The SQLAlchemy session, as the committed rows of the three tables involved. The field
  \<open>trace\<close> is a ghost: it is not a table, it records the events above so that "how often
  was the account debited" and "was an external call made" are statements about a value.
  Requests are handled one at a time: the model has no interleaving of two sessions.
\<close>

record session =
  users :: "int \<rightharpoonup> user"
  api_configs :: "api_config list"
  generations :: "generation list"
  trace :: "event list"

section \<open>Ledger (\<^verbatim>\<open>backend/services/user_service.py\<close>)\<close>

definition get_user_by_id :: "session \<Rightarrow> int \<Rightarrow> exn + user" where
  "get_user_by_id db uid =
     (case users db uid of
        None \<Rightarrow> Inl (HTTPException 404 User_not_found)
      | Some u \<Rightarrow> Inr u)"

text \<open>
  \<^verbatim>\<open>deduct_points\<close> and \<^verbatim>\<open>add_points\<close> return the session after the call and
  either the exception raised or the value returned. A raise happens before any
  assignment, so the session comes back as it was.
\<close>

definition deduct_points :: "session \<Rightarrow> int \<Rightarrow> int \<Rightarrow> session \<times> (exn + bool)" where
  "deduct_points db uid pts =
     (case get_user_by_id db uid of
        Inl e \<Rightarrow> (db, Inl e)
      | Inr u \<Rightarrow>
          if points u < pts then (db, Inl (HTTPException 400 Insufficient_points))
          else (db\<lparr>users := (users db)(uid \<mapsto> u\<lparr>points := points u - pts\<rparr>),
                    trace := trace db @ [Debit uid pts]\<rparr>, Inr True))"

definition add_points :: "session \<Rightarrow> int \<Rightarrow> int \<Rightarrow> session \<times> (exn + bool)" where
  "add_points db uid pts =
     (case get_user_by_id db uid of
        Inl e \<Rightarrow> (db, Inl e)
      | Inr u \<Rightarrow>
          (db\<lparr>users := (users db)(uid \<mapsto> u\<lparr>points := points u + pts\<rparr>),
               trace := trace db @ [Credit uid pts]\<rparr>, Inr True))"

definition get_active_api_config :: "session \<Rightarrow> api_config option" where
  "get_active_api_config db = find is_active (api_configs db)"

text \<open>The balance of an account; \<open>None\<close> when the account does not exist.\<close>

definition balance :: "session \<Rightarrow> int \<Rightarrow> int option" where
  "balance db uid = map_option points (users db uid)"

text \<open>
  A sequence of ledger operations on one account. A call that raises leaves the session
  as it was, and the next call of the sequence starts from there.
\<close>

datatype ledger_op = Deduct int | Add int

fun ledger_step :: "int \<Rightarrow> session \<Rightarrow> ledger_op \<Rightarrow> session" where
  "ledger_step uid db (Deduct n) = fst (deduct_points db uid n)"
| "ledger_step uid db (Add n) = fst (add_points db uid n)"

fun ledger_run :: "int \<Rightarrow> session \<Rightarrow> ledger_op list \<Rightarrow> session" where
  "ledger_run uid db [] = db"
| "ledger_run uid db (x # xs) = ledger_run uid (ledger_step uid db x) xs"

fun credit_amounts_ok :: "ledger_op list \<Rightarrow> bool" where
  "credit_amounts_ok [] = True"
| "credit_amounts_ok (Deduct n # xs) = credit_amounts_ok xs"
| "credit_amounts_ok (Add n # xs) = (0 \<le> n \<and> credit_amounts_ok xs)"

section \<open>The outside world\<close>

text \<open>
  Everything \<^verbatim>\<open>generate_image\<close> reads without computing it: the two environment
  defaults of \<^verbatim>\<open>GenerationService.__init__\<close>, the default system prompt (the Chinese
  literal in \<^verbatim>\<open>optimize_prompt\<close>), the outcome of each HTTP call and the clock.
  An HTTP call either raises (transport error, timeout; for an image call also a failing
  \<^verbatim>\<open>base64.b64decode\<close> of the source image, which sits in the same \<^verbatim>\<open>try\<close>) or
  returns a response. \<open>resp_text\<close> is \<^verbatim>\<open>response.text\<close>, \<open>json_body\<close> is what \<^verbatim>\<open>response.json()\<close> returns, \<open>None\<close> when
  it raises. \<open>images w i\<close> is the outcome of the \<open>i\<close>-th image call of a batch.
\<close>

record response =
  status_code :: int
  resp_text :: string
  json_body :: "json option"

datatype reply = Raised exn | Replied response

record world =
  default_api_key :: string
  default_api_base_url :: string
  default_system_prompt :: string
  chat_completions :: "string \<Rightarrow> string \<Rightarrow> string \<Rightarrow> string \<Rightarrow> string \<Rightarrow> reply"
  images :: "nat \<Rightarrow> bool \<Rightarrow> string \<Rightarrow> string \<Rightarrow> reply"
  utcnow :: "nat \<Rightarrow> nat"

section \<open>Python's dynamic operations on decoded JSON\<close>

text \<open>Truthiness of an optional string: \<^verbatim>\<open>None\<close> and \<^verbatim>\<open>""\<close> are false.\<close>

definition truthy :: "string option \<Rightarrow> bool" where
  "truthy a = (case a of None \<Rightarrow> False | Some s \<Rightarrow> s \<noteq> [])"

text \<open>\<^verbatim>\<open>a or b\<close> on optional strings, and with a string default.\<close>

definition py_or :: "string option \<Rightarrow> string option \<Rightarrow> string option" where
  "py_or a b = (if truthy a then a else b)"

definition str_or :: "string option \<Rightarrow> string \<Rightarrow> string" where
  "str_or a d = (case a of None \<Rightarrow> d | Some s \<Rightarrow> if s \<noteq> [] then s else d)"

text \<open>The string behind an optional string that has been tested to be truthy.\<close>

definition str_of :: "string option \<Rightarrow> string" where
  "str_of a = (case a of None \<Rightarrow> [] | Some s \<Rightarrow> s)"

fun py_truthy :: "json \<Rightarrow> bool" where
  "py_truthy JNull = False"
| "py_truthy (JBool b) = b"
| "py_truthy (JNum n) = (n \<noteq> 0)"
| "py_truthy (JStr s) = (s \<noteq> [])"
| "py_truthy (JArr xs) = (xs \<noteq> [])"
| "py_truthy (JObj kvs) = (kvs \<noteq> [])"

text \<open>\<^verbatim>\<open>x.get(k, d)\<close>: only a dict has \<^verbatim>\<open>get\<close>; \<open>None\<close> is the AttributeError.\<close>

fun py_get :: "json \<Rightarrow> string \<Rightarrow> json \<Rightarrow> json option" where
  "py_get (JObj kvs) k d = Some (case map_of (rev kvs) k of None \<Rightarrow> d | Some v \<Rightarrow> v)"
| "py_get _ k d = None"

text \<open>
  \<^verbatim>\<open>x[0]\<close>: the first element of a list, the first character of a string; IndexError
  on an empty one, KeyError on a dict (its keys are strings), TypeError otherwise.
\<close>

fun py_index0 :: "json \<Rightarrow> json option" where
  "py_index0 (JArr (x # xs)) = Some x"
| "py_index0 (JStr (c # cs)) = Some (JStr [c])"
| "py_index0 _ = None"

text \<open>
  \<^verbatim>\<open>k in x\<close> for a string \<open>k\<close>: key test on a dict, membership on a list, substring
  test on a string, TypeError on the rest.
\<close>

fun py_in :: "string \<Rightarrow> json \<Rightarrow> exn + bool" where
  "py_in k (JObj kvs) = Inr (k \<in> set (map fst kvs))"
| "py_in k (JArr xs) = Inr (JStr k \<in> set xs)"
| "py_in k (JStr s) = Inr (sublist k s)"
| "py_in k _ = Inl (PyError ''TypeError'')"

text \<open>\<^verbatim>\<open>x[k]\<close> for a string \<open>k\<close>: defined on a dict only.\<close>

fun py_getitem :: "json \<Rightarrow> string \<Rightarrow> exn + json" where
  "py_getitem (JObj kvs) k =
     (case map_of (rev kvs) k of None \<Rightarrow> Inl (PyError ''KeyError'') | Some v \<Rightarrow> Inr v)"
| "py_getitem _ k = Inl (PyError ''TypeError'')"

text \<open>
  \<^verbatim>\<open>str.strip()\<close>. The characters of a \<open>string\<close> are read as code points; the
  whitespace among the code points below 256 (those of \<^verbatim>\<open>str.isspace\<close>) is tab, line
  feed, vertical tab, form feed, carriage return, the four separators 28 to 31, the
  space, next line (133) and the no-break space (160).
\<close>

definition is_space :: "char \<Rightarrow> bool" where
  "is_space c = ((of_char c :: nat) \<in> {9, 10, 11, 12, 13, 28, 29, 30, 31, 32, 133, 160})"

definition strip :: "string \<Rightarrow> string" where
  "strip s = rev (dropWhile is_space (rev (dropWhile is_space s)))"

fun py_strip :: "json \<Rightarrow> string option" where
  "py_strip (JStr s) = Some (strip s)"
| "py_strip _ = None"

section \<open>Orchestrator (\<^verbatim>\<open>backend/services/generation_service.py\<close>)\<close>

subsection \<open>\<^verbatim>\<open>optimize_prompt\<close>\<close>

text \<open>
  \<^verbatim>\<open>result.get("choices", [{}])[0].get("message", {}).get("content", "").strip()\<close>,
  in two steps: the value of \<^verbatim>\<open>content\<close> as the optimizer sent it, then its
  \<^verbatim>\<open>strip()\<close>; \<open>None\<close> when any step of the chain raises.
\<close>

definition message_content :: "json \<Rightarrow> json option" where
  "message_content result =
     Option.bind (py_get result ''choices'' (JArr [JObj []])) (\<lambda>choices.
     Option.bind (py_index0 choices) (\<lambda>choice.
     Option.bind (py_get choice ''message'' (JObj [])) (\<lambda>msg.
       py_get msg ''content'' (JStr []))))"

definition optimized_content :: "json \<Rightarrow> string option" where
  "optimized_content result = Option.bind (message_content result) py_strip"

text \<open>
  Every exception inside the \<^verbatim>\<open>try\<close> is caught and answered with the prompt itself,
  so the function always returns a string. The event is logged when the POST is
  attempted, that is, once an API key is there.
\<close>

definition optimize_prompt ::
  "world \<Rightarrow> session \<Rightarrow> string \<Rightarrow> string \<Rightarrow> string option \<Rightarrow> string option \<Rightarrow> string option
     \<Rightarrow> session \<times> string" where
  "optimize_prompt w db prompt' optimizer_model' api_key' api_base_url' system_prompt' =
     (let final_api_key = str_or api_key' (default_api_key w);
          final_api_base_url = str_or api_base_url' (default_api_base_url w);
          sys = str_or system_prompt' (default_system_prompt w)
      in if final_api_key = [] then (db, prompt')
         else
           (db\<lparr>trace := trace db @ [Optimizer_call optimizer_model' sys prompt']\<rparr>,
            case chat_completions w final_api_base_url final_api_key optimizer_model' sys prompt' of
              Raised e \<Rightarrow> prompt'
            | Replied r \<Rightarrow>
                if status_code r = 200 then
                  (case Option.bind (json_body r) optimized_content of
                     None \<Rightarrow> prompt'
                   | Some optimized \<Rightarrow> if optimized \<noteq> [] then optimized else prompt')
                else prompt'))"

subsection \<open>\<^verbatim>\<open>_extract_image_data\<close> and \<^verbatim>\<open>_call_ai_api\<close>\<close>

text \<open>
  The value returned is a dict with one entry, here the pair of its key and value;
  \<open>Inr None\<close> is the \<^verbatim>\<open>return None\<close> of the source, \<open>Inl\<close> an exception that escapes
  (it is caught in \<^verbatim>\<open>_call_ai_api\<close>).
\<close>

definition extract_image_data :: "json \<Rightarrow> exn + (string \<times> json) option" where
  "extract_image_data response =
     (case py_get response ''data'' (JArr []) of
        None \<Rightarrow> Inl (PyError ''AttributeError'')
      | Some data \<Rightarrow>
          if \<not> py_truthy data then Inr None
          else
            (let item = (case data of JArr (x # xs) \<Rightarrow> x | _ \<Rightarrow> data) in
             case py_in ''b64_json'' item of
               Inl e \<Rightarrow> Inl e
             | Inr has_b64 \<Rightarrow>
                 if has_b64 then map_sum id (\<lambda>v. Some (''b64_json'', v)) (py_getitem item ''b64_json'')
                 else
                   (case py_in ''url'' item of
                      Inl e \<Rightarrow> Inl e
                    | Inr has_url \<Rightarrow>
                        if has_url then map_sum id (\<lambda>v. Some (''url'', v)) (py_getitem item ''url'')
                        else
                          (case py_in ''image_url'' item of
                             Inl e \<Rightarrow> Inl e
                           | Inr has_alias \<Rightarrow>
                               if has_alias
                               then map_sum id (\<lambda>v. Some (''url'', v)) (py_getitem item ''image_url'')
                               else Inr None))))"

text \<open>\<^verbatim>\<open>image_data.get(k)\<close> on that one-entry dict.\<close>

definition image_data_get :: "string \<times> json \<Rightarrow> string \<Rightarrow> json" where
  "image_data_get d k = (if fst d = k then snd d else JNull)"

text \<open>
  The dict returned by \<^verbatim>\<open>_call_ai_api\<close>: \<open>Success image_url base64_image raw_response\<close>
  or \<open>Failure error\<close>.
\<close>

datatype image_result = Success json json json | Failure message

text \<open>
  The error text of a response that is not a 200: the body's text, replaced by
  \<^verbatim>\<open>error_json.get("error", {}).get("message", error_text)\<close> unless that raises.
\<close>

definition error_text :: "response \<Rightarrow> json" where
  "error_text r =
     (case Option.bind (json_body r) (\<lambda>error_json.
             Option.bind (py_get error_json ''error'' (JObj [])) (\<lambda>err.
               py_get err ''message'' (JStr (resp_text r)))) of
        None \<Rightarrow> JStr (resp_text r)
      | Some m \<Rightarrow> m)"

definition call_ai_api ::
  "world \<Rightarrow> session \<Rightarrow> nat \<Rightarrow> request \<Rightarrow> string \<Rightarrow> string \<Rightarrow> api_config \<Rightarrow> session \<times> image_result" where
  "call_ai_api w db i req optimized model' cfg =
     (let edit = truthy (image_file req) in
      (db\<lparr>trace := trace db @ [Image_call edit model' optimized]\<rparr>,
       case images w i edit model' optimized of
         Raised e \<Rightarrow> Failure (Api_call_error e)
       | Replied r \<Rightarrow>
           if status_code r = 200 then
             (case json_body r of
                None \<Rightarrow> Failure (Api_call_error (PyError ''JSONDecodeError''))
              | Some result \<Rightarrow>
                  (case extract_image_data result of
                     Inl e \<Rightarrow> Failure (Api_call_error e)
                   | Inr None \<Rightarrow> Failure No_image_data_in_response
                   | Inr (Some image_data) \<Rightarrow>
                       Success (image_data_get image_data ''url'')
                         (image_data_get image_data ''b64_json'') result))
           else Failure (Api_call_failed (status_code r) (error_text r))))"

subsection \<open>\<^verbatim>\<open>generate_image\<close>, phase by phase\<close>

text \<open>Lines 81 to 96: the prompt sent to the models.\<close>

definition resolve_prompt :: "world \<Rightarrow> session \<Rightarrow> request \<Rightarrow> api_config \<Rightarrow> session \<times> string" where
  "resolve_prompt w db req cfg =
     (let final_optimizer_model = py_or (req_optimizer_model req) (optimizer_model cfg);
          final_system_prompt = py_or (req_system_prompt req) (system_prompt cfg)
      in if enable_optimization req \<and> truthy final_optimizer_model \<and> truthy final_system_prompt
         then optimize_prompt w db (req_prompt req) (str_of final_optimizer_model)
                (Some (api_key cfg)) (Some (api_base_url cfg)) final_system_prompt
         else (db, req_prompt req))"

text \<open>
  The outcome of the optimizer call that \<^verbatim>\<open>generate_image\<close> makes for a request,
  when it makes one: the arguments are those of the call of \<^verbatim>\<open>optimize_prompt\<close>
  above.
\<close>

definition optimizer_outcome :: "world \<Rightarrow> request \<Rightarrow> api_config \<Rightarrow> reply" where
  "optimizer_outcome w req cfg =
     chat_completions w
       (str_or (Some (api_base_url cfg)) (default_api_base_url w))
       (str_or (Some (api_key cfg)) (default_api_key w))
       (str_of (py_or (req_optimizer_model req) (optimizer_model cfg)))
       (str_or (py_or (req_system_prompt req) (system_prompt cfg)) (default_system_prompt w))
       (req_prompt req)"

text \<open>
  Lines 98 to 118: one record per model, added and committed. The columns not named in
  the constructor call are null.
\<close>

definition new_generation :: "int \<Rightarrow> request \<Rightarrow> string \<Rightarrow> string \<Rightarrow> generation" where
  "new_generation uid req optimized m =
     \<lparr>user_id = uid, prompt = req_prompt req,
      optimized_prompt = (if optimized \<noteq> req_prompt req then Some optimized else None),
      model = m, image_url = JNull, base64_image = JNull, points_used = 1,
      status = Processing, error_message = None, api_response = None, completed_at = None\<rparr>"

definition create_generations ::
  "session \<Rightarrow> int \<Rightarrow> request \<Rightarrow> string \<Rightarrow> session \<times> generation list" where
  "create_generations db uid req optimized =
     (let gens = map (new_generation uid req optimized) (models req)
      in (db\<lparr>generations := generations db @ gens\<rparr>, gens))"

text \<open>
  Lines 122 to 140: the loop over the records. \<^verbatim>\<open>_call_ai_api\<close> catches every
  exception itself, so the inner \<^verbatim>\<open>except\<close> of the loop has no run that reaches it.
  The assignments stay in the session's objects until the next commit.
\<close>

definition record_result :: "world \<Rightarrow> nat \<Rightarrow> image_result \<Rightarrow> generation \<Rightarrow> generation" where
  "record_result w i res g =
     (case res of
        Success url b64 raw \<Rightarrow>
          g\<lparr>status := Completed, image_url := url, base64_image := b64,
            api_response := Some raw, completed_at := Some (utcnow w i)\<rparr>
      | Failure err \<Rightarrow> g\<lparr>status := Failed, error_message := Some err\<rparr>)"

fun call_models ::
  "world \<Rightarrow> request \<Rightarrow> string \<Rightarrow> api_config \<Rightarrow> nat \<Rightarrow> generation list \<Rightarrow> session
     \<Rightarrow> session \<times> generation list" where
  "call_models w req optimized cfg i [] db = (db, [])"
| "call_models w req optimized cfg i (g # gs) db =
     (case call_ai_api w db i req optimized (model g) cfg of
        (db', res) \<Rightarrow>
          (case call_models w req optimized cfg (Suc i) gs db' of
             (db'', gs') \<Rightarrow> (db'', record_result w i res g # gs')))"

text \<open>
  Lines 142 to 164: settlement. The commit writes the batch's records over the rows the
  batch inserted, which are the last rows of the table.
  The commit inside \<^verbatim>\<open>deduct_points\<close> also flushes the statuses written by the loop; with
  one session at a time that intermediate state of the rows is not observed, and the
  commit of line 164 (or of the handler) writes the final one.
\<close>

definition commit_batch :: "generation list \<Rightarrow> session \<Rightarrow> session" where
  "commit_batch gens db =
     db\<lparr>generations :=
          take (length (generations db) - length gens) (generations db) @ gens\<rparr>"

definition points_to_deduct :: "request \<Rightarrow> int" where
  "points_to_deduct req = 1 + (if enable_optimization req then 1 else 0)"

definition successful_generations :: "generation list \<Rightarrow> nat" where
  "successful_generations gens = length (filter (\<lambda>g. status g = Completed) gens)"

text \<open>The bodies of the three \<^verbatim>\<open>for\<close> statements that write \<^verbatim>\<open>points_used\<close> (lines 154 to 158, 161 to 162, 168 to 171).\<close>

definition charge_record :: "int \<Rightarrow> generation \<Rightarrow> generation" where
  "charge_record c g =
     (if status g = Completed then g\<lparr>points_used := c\<rparr> else g\<lparr>points_used := 0\<rparr>)"

definition no_charge :: "generation \<Rightarrow> generation" where
  "no_charge g = g\<lparr>points_used := 0\<rparr>"

definition mark_failed :: "exn \<Rightarrow> generation \<Rightarrow> generation" where
  "mark_failed e g =
     g\<lparr>status := Failed, error_message := Some (Exception_text e), points_used := 0\<rparr>"

definition settle ::
  "session \<Rightarrow> int \<Rightarrow> request \<Rightarrow> generation list \<Rightarrow> session \<times> (exn + generation list)" where
  "settle db uid req gens =
     (if successful_generations gens > 0 then
        (case deduct_points db uid (points_to_deduct req) of
           (db', Inl e) \<Rightarrow> (db', Inl e)
         | (db', Inr ok) \<Rightarrow>
             (let gens' = map (charge_record (points_to_deduct req)) gens
              in (commit_batch gens' db', Inr gens')))
      else
        (let gens' = map no_charge gens
         in (commit_batch gens' db, Inr gens')))"

text \<open>Lines 166 to 172: the handler of the outer \<^verbatim>\<open>try\<close>.\<close>

definition fail_batch :: "exn \<Rightarrow> generation list \<Rightarrow> session \<Rightarrow> session \<times> generation list" where
  "fail_batch e gens db =
     (let gens' = map (mark_failed e) gens
      in (commit_batch gens' db, gens'))"

text \<open>
  The state between the phases, for the statements about what holds before settlement:
  after the records are created and committed, and after the loop over the models.
\<close>

definition after_create ::
  "world \<Rightarrow> session \<Rightarrow> int \<Rightarrow> request \<Rightarrow> api_config \<Rightarrow> session \<times> generation list" where
  "after_create w db uid req cfg =
     (case resolve_prompt w db req cfg of
        (db1, optimized) \<Rightarrow> create_generations db1 uid req optimized)"

definition after_calls ::
  "world \<Rightarrow> session \<Rightarrow> int \<Rightarrow> request \<Rightarrow> api_config \<Rightarrow> session \<times> generation list" where
  "after_calls w db uid req cfg =
     (case resolve_prompt w db req cfg of
        (db1, optimized) \<Rightarrow>
          (case create_generations db1 uid req optimized of
             (db2, gens) \<Rightarrow> call_models w req optimized cfg 0 gens db2))"

text \<open>
  The whole call. A raise of a precondition leaves through \<open>Inl\<close>; from the creation of
  the records on, the call always returns the list of records.
\<close>

definition generate_image ::
  "world \<Rightarrow> session \<Rightarrow> int \<Rightarrow> request \<Rightarrow> session \<times> (exn + generation list)" where
  "generate_image w db uid req =
     (case get_user_by_id db uid of
        Inl e \<Rightarrow> (db, Inl e)
      | Inr u \<Rightarrow>
          if points u < 1 then (db, Inl (HTTPException 400 Points_not_enough))
          else
            (case get_active_api_config db of
               None \<Rightarrow> (db, Inl (HTTPException 500 Api_config_not_set))
             | Some cfg \<Rightarrow>
                 (case after_calls w db uid req cfg of
                    (db3, gens) \<Rightarrow>
                      (case settle db3 uid req gens of
                         (db4, Inr gens') \<Rightarrow> (db4, Inr gens')
                       | (db4, Inl e) \<Rightarrow>
                           (case fail_batch e gens db4 of
                              (db5, gens') \<Rightarrow> (db5, Inr gens'))))))"

text \<open>The events a call added to the trace, and the amounts of the debits among them.\<close>

definition new_events :: "session \<Rightarrow> session \<Rightarrow> event list" where
  "new_events db db' = drop (length (trace db)) (trace db')"

fun debits :: "event list \<Rightarrow> int list" where
  "debits [] = []"
| "debits (Debit uid n # es) = n # debits es"
| "debits (e # es) = debits es"

text \<open>The records a call returned to its caller: none when it raised.\<close>

definition returned :: "session \<times> (exn + generation list) \<Rightarrow> generation list" where
  "returned r = (case snd r of Inl e \<Rightarrow> [] | Inr gens \<Rightarrow> gens)"

fun image_calls :: "event list \<Rightarrow> event list" where
  "image_calls [] = []"
| "image_calls (Image_call edit m p # es) = Image_call edit m p # image_calls es"
| "image_calls (e # es) = image_calls es"

text \<open>
  The optimizer call "results in a transport error, a non-200 response, or an empty
  result": the call raised, or the status is not 200, or no text comes out of the 200
  response (the body is not JSON, the chain of lookups raises, or the content is empty
  once stripped).
\<close>

fun optimizer_failed :: "reply \<Rightarrow> bool" where
  "optimizer_failed (Raised e) = True"
| "optimizer_failed (Replied r) =
     (status_code r \<noteq> 200
      \<or> Option.bind (json_body r) optimized_content = None
      \<or> Option.bind (json_body r) optimized_content = Some [])"

section \<open>Sample data\<close>

text \<open>
  One account (id 1) with a given balance, one provider configuration, a request for a
  list of models, and a world in which the model \<^verbatim>\<open>m2\<close> answers 500 and every other
  model answers 200 with a URL. The scenarios of the specification are runs on these.
\<close>

definition example_config :: api_config where
  "example_config =
     \<lparr>api_key = ''sk-test'', api_base_url = ''https://api.example'',
      optimizer_model = Some ''gpt-4o-mini'', system_prompt = Some ''Rewrite the prompt'',
      is_active = True\<rparr>"

definition example_session :: "int \<Rightarrow> api_config list \<Rightarrow> session" where
  "example_session b cfgs =
     \<lparr>users = [1 \<mapsto> \<lparr>username = ''ann'', points = b\<rparr>], api_configs = cfgs,
      generations = [], trace = []\<rparr>"

definition example_request :: "bool \<Rightarrow> string list \<Rightarrow> request" where
  "example_request opt ms =
     \<lparr>req_prompt = ''a cat'', enable_optimization = opt, models = ms,
      req_size = ''1024x1024'', output_format = ''png'', image_file = None,
      req_optimizer_model = None, req_system_prompt = None\<rparr>"

definition url_response :: response where
  "url_response =
     \<lparr>status_code = 200, resp_text = [],
      json_body = Some (JObj [(''data'', JArr [JObj [(''url'', JStr ''https://img/1.png'')]])])\<rparr>"

definition error_response :: response where
  "error_response = \<lparr>status_code = 500, resp_text = ''upstream error'', json_body = None\<rparr>"

definition example_world :: "reply \<Rightarrow> world" where
  "example_world optimizer_reply =
     \<lparr>default_api_key = [], default_api_base_url = ''https://api.openai.com'',
      default_system_prompt = ''Improve the prompt'',
      chat_completions = (\<lambda>url key m sys p. optimizer_reply),
      images = (\<lambda>i edit m p. if m = ''m2'' then Replied error_response else Replied url_response),
      utcnow = (\<lambda>i. 1000 + i)\<rparr>"

text \<open>A 200 response of the optimizer carrying the given text.\<close>

definition chat_response :: "string \<Rightarrow> response" where
  "chat_response content =
     \<lparr>status_code = 200, resp_text = [],
      json_body = Some (JObj [(''choices'',
        JArr [JObj [(''message'', JObj [(''content'', JStr content)])]])])\<rparr>"

text \<open>
  A 200 response of an image provider that lists both payload fields and leaves the
  inline one null.
\<close>

definition null_b64_response :: response where
  "null_b64_response =
     \<lparr>status_code = 200, resp_text = [],
      json_body = Some (JObj [(''data'',
        JArr [JObj [(''b64_json'', JNull), (''url'', JStr ''https://img/1.png'')]])])\<rparr>"

lemmas example_defs = example_config_def example_session_def example_request_def
  url_response_def error_response_def example_world_def chat_response_def
  null_b64_response_def

lemmas run_defs = generate_image_def get_user_by_id_def get_active_api_config_def
  after_calls_def after_create_def resolve_prompt_def optimize_prompt_def
  create_generations_def new_generation_def call_ai_api_def extract_image_data_def
  image_data_get_def record_result_def settle_def fail_batch_def commit_batch_def
  deduct_points_def add_points_def points_to_deduct_def successful_generations_def
  charge_record_def no_charge_def mark_failed_def truthy_def py_or_def str_or_def
  str_of_def error_text_def optimized_content_def message_content_def returned_def
  new_events_def balance_def

section \<open>The ledger\<close>

lemma deduct_points_raises:
  "users db uid = Some u \<Longrightarrow> points u < n \<Longrightarrow>
     deduct_points db uid n = (db, Inl (HTTPException 400 Insufficient_points))"
  by (simp add: deduct_points_def get_user_by_id_def)

lemma deduct_points_ok:
  "users db uid = Some u \<Longrightarrow> n \<le> points u \<Longrightarrow>
     deduct_points db uid n =
       (db\<lparr>users := (users db)(uid \<mapsto> u\<lparr>points := points u - n\<rparr>),
            trace := trace db @ [Debit uid n]\<rparr>, Inr True)"
  by (simp add: deduct_points_def get_user_by_id_def)

lemma add_points_ok:
  "users db uid = Some u \<Longrightarrow>
     add_points db uid n =
       (db\<lparr>users := (users db)(uid \<mapsto> u\<lparr>points := points u + n\<rparr>),
            trace := trace db @ [Credit uid n]\<rparr>, Inr True)"
  by (simp add: add_points_def get_user_by_id_def)

lemma ledger_step_nonneg:
  assumes "balance db uid = Some b" "0 \<le> b" "credit_amounts_ok [x]"
  shows "\<exists>b'. balance (ledger_step uid db x) uid = Some b' \<and> 0 \<le> b'"
proof -
  from assms(1) obtain u where u: "users db uid = Some u" "points u = b"
    by (auto simp: balance_def)
  show ?thesis
  proof (cases x)
    case (Deduct n)
    then show ?thesis using u assms(2)
      by (cases "points u < n") (simp_all add: deduct_points_raises deduct_points_ok balance_def)
  next
    case (Add n)
    then show ?thesis using u assms(2,3)
      by (simp add: add_points_ok balance_def)
  qed
qed

lemma ledger_run_nonneg:
  "balance db uid = Some b \<Longrightarrow> 0 \<le> b \<Longrightarrow> credit_amounts_ok ops \<Longrightarrow>
     \<exists>b'. balance (ledger_run uid db ops) uid = Some b' \<and> 0 \<le> b'"
proof (induction ops arbitrary: db b)
  case Nil
  then show ?case by simp
next
  case (Cons x xs)
  have ok1: "credit_amounts_ok [x]" and okr: "credit_amounts_ok xs"
    using Cons.prems(3) by (cases x; simp)+
  from ledger_step_nonneg [OF Cons.prems(1,2) ok1]
  obtain b1 where "balance (ledger_step uid db x) uid = Some b1" "0 \<le> b1" by blast
  from Cons.IH [OF this okr] show ?case by simp
qed

lemma credit_amounts_ok_take: "credit_amounts_ok ops \<Longrightarrow> credit_amounts_ok (take k ops)"
proof (induction ops arbitrary: k)
  case Nil
  then show ?case by simp
next
  case (Cons x xs)
  then show ?case by (cases k; cases x; simp)
qed

text \<open>
  Claim C4, as amended. \<^verbatim>\<open>deduct_points\<close> raises the 400 "Insufficient points" when
  the balance is below the amount and then leaves the session as it was; otherwise it
  returns True and the balance is lowered by exactly the amount. Consequently, along
  every sequence of \<^verbatim>\<open>deduct_points\<close> calls (of any amounts) and \<^verbatim>\<open>add_points\<close>
  calls of non-negative amounts that starts from a non-negative balance, the balance is
  non-negative after every call.
\<close>

theorem ledger_debit_never_negative:
  assumes "users db uid = Some u"
  shows "(points u < n \<longrightarrow>
            deduct_points db uid n = (db, Inl (HTTPException 400 Insufficient_points)))
       \<and> (n \<le> points u \<longrightarrow>
            snd (deduct_points db uid n) = Inr True
          \<and> balance (fst (deduct_points db uid n)) uid = Some (points u - n))
       \<and> (0 \<le> points u \<and> credit_amounts_ok ops \<longrightarrow>
            (\<forall>k. \<exists>b'. balance (ledger_run uid db (take k ops)) uid = Some b' \<and> 0 \<le> b'))"
proof (intro conjI impI allI)
  assume "points u < n"
  then show "deduct_points db uid n = (db, Inl (HTTPException 400 Insufficient_points))"
    using assms by (rule deduct_points_raises [rotated])
next
  assume "n \<le> points u"
  then show "snd (deduct_points db uid n) = Inr True"
    using assms by (simp add: deduct_points_ok)
next
  assume "n \<le> points u"
  then show "balance (fst (deduct_points db uid n)) uid = Some (points u - n)"
    using assms by (simp add: deduct_points_ok balance_def)
next
  fix k
  assume a: "0 \<le> points u \<and> credit_amounts_ok ops"
  have "balance db uid = Some (points u)" using assms by (simp add: balance_def)
  then show "\<exists>b'. balance (ledger_run uid db (take k ops)) uid = Some b' \<and> 0 \<le> b'"
    using a by (blast intro: ledger_run_nonneg credit_amounts_ok_take)
qed

text \<open>
  The theorem at a balance of 3: a debit of 5 is refused, a debit of 2 leaves 1, and the
  sequence debit 2, debit 2 (refused), credit 4, debit 5 ends at 0.
\<close>

theorem ledger_debit_never_negative_witness:
  "deduct_points (example_session 3 []) 1 5
      = (example_session 3 [], Inl (HTTPException 400 Insufficient_points))
   \<and> snd (deduct_points (example_session 3 []) 1 2) = Inr True
   \<and> balance (fst (deduct_points (example_session 3 []) 1 2)) 1 = Some 1
   \<and> (\<exists>b'. balance (ledger_run 1 (example_session 3 [])
               (take 4 [Deduct 2, Deduct 2, Add 4, Deduct 5])) 1 = Some b' \<and> 0 \<le> b')"
proof -
  have u: "users (example_session 3 []) 1 = Some \<lparr>username = ''ann'', points = 3\<rparr>"
    by (simp add: example_session_def)
  have 1: "deduct_points (example_session 3 []) 1 5
      = (example_session 3 [], Inl (HTTPException 400 Insufficient_points))"
    using ledger_debit_never_negative [OF u, of 5 "[]"] by simp
  have 2: "snd (deduct_points (example_session 3 []) 1 2) = Inr True
      \<and> balance (fst (deduct_points (example_session 3 []) 1 2)) 1 = Some 1"
    using ledger_debit_never_negative [OF u, of 2 "[]"] by simp
  have ok: "0 \<le> points \<lparr>username = ''ann'', points = 3\<rparr>
      \<and> credit_amounts_ok [Deduct 2, Deduct 2, Add 4, Deduct 5]" by simp
  from ledger_debit_never_negative [OF u, of 0 "[Deduct 2, Deduct 2, Add 4, Deduct 5]"] ok
  have "\<forall>k. \<exists>b'. balance (ledger_run 1 (example_session 3 [])
               (take k [Deduct 2, Deduct 2, Add 4, Deduct 5])) 1 = Some b' \<and> 0 \<le> b'"
    by blast
  then have 3: "\<exists>b'. balance (ledger_run 1 (example_session 3 [])
               (take 4 [Deduct 2, Deduct 2, Add 4, Deduct 5])) 1 = Some b' \<and> 0 \<le> b'"
    by (rule spec)
  show ?thesis using 1 2 3 by blast
qed

text \<open>
  The claim as stated fails for the sequence that consists of one credit of \<open>-1\<close>: from
  the balance 0 it leads to the balance \<open>-1\<close>.
\<close>

theorem ledger_negative_credit_counterexample:
  "balance (example_session 0 []) 1 = Some 0
   \<and> balance (ledger_run 1 (example_session 0 []) [Add (- 1)]) 1 = Some (- 1)"
  by (simp add: example_session_def add_points_def get_user_by_id_def balance_def)

text \<open>
  Claim C7, as stated, fails: \<^verbatim>\<open>add_points\<close> with the amount \<open>-5\<close> returns True and
  takes the balance from 10 to 5.
\<close>

theorem add_points_negative_counterexample:
  "snd (add_points (example_session 10 []) 1 (- 5)) = Inr True
   \<and> balance (fst (add_points (example_session 10 []) 1 (- 5))) 1 = Some 5"
  by (simp add: example_session_def add_points_def get_user_by_id_def balance_def)

text \<open>
  Claim C7, as amended. \<^verbatim>\<open>add_points\<close> has no check of the amount: on an existing
  account it returns True for every amount, negative ones included, and the balance
  becomes the old balance plus the amount; no other account changes. In particular an
  amount that is not negative raises the balance by exactly that amount.
\<close>

theorem add_points_increments:
  assumes "users db uid = Some u"
  shows "snd (add_points db uid n) = Inr True
       \<and> balance (fst (add_points db uid n)) uid = Some (points u + n)
       \<and> users (fst (add_points db uid n)) = (users db)(uid \<mapsto> u\<lparr>points := points u + n\<rparr>)"
  using assms by (simp add: add_points_ok balance_def)

theorem add_points_increments_witness:
  "snd (add_points (example_session 10 []) 1 7) = Inr True
   \<and> balance (fst (add_points (example_session 10 []) 1 7)) 1 = Some 17"
proof -
  have u: "users (example_session 10 []) 1 = Some \<lparr>username = ''ann'', points = 10\<rparr>"
    by (simp add: example_session_def)
  show ?thesis using add_points_increments [OF u, of 7] by simp
qed

section \<open>The phases of \<^verbatim>\<open>generate_image\<close>\<close>

text \<open>\<^verbatim>\<open>optimize_prompt\<close> changes only the trace, by at most one optimizer call.\<close>

lemma optimize_prompt_session:
  "\<exists>evs. fst (optimize_prompt w db p om key url sys) = db\<lparr>trace := trace db @ evs\<rparr>
        \<and> debits evs = [] \<and> length evs \<le> 1"
proof (cases "str_or key (default_api_key w) = []")
  case True
  then have "fst (optimize_prompt w db p om key url sys) = db\<lparr>trace := trace db @ []\<rparr>"
    by (simp add: optimize_prompt_def)
  then show ?thesis by (intro exI [of _ "[]"]) simp
next
  case False
  then have "fst (optimize_prompt w db p om key url sys) =
      db\<lparr>trace := trace db @ [Optimizer_call om (str_or sys (default_system_prompt w)) p]\<rparr>"
    by (simp add: optimize_prompt_def Let_def)
  then show ?thesis
    by (intro exI [of _ "[Optimizer_call om (str_or sys (default_system_prompt w)) p]"]) simp
qed

lemma resolve_prompt_session:
  "\<exists>evs. fst (resolve_prompt w db req cfg) = db\<lparr>trace := trace db @ evs\<rparr>
        \<and> debits evs = [] \<and> length evs \<le> 1"
proof (cases "enable_optimization req
       \<and> truthy (py_or (req_optimizer_model req) (optimizer_model cfg))
       \<and> truthy (py_or (req_system_prompt req) (system_prompt cfg))")
  case True
  then show ?thesis
    using optimize_prompt_session by (simp add: resolve_prompt_def Let_def)
next
  case False
  then have "fst (resolve_prompt w db req cfg) = db\<lparr>trace := trace db @ []\<rparr>"
    by (auto simp add: resolve_prompt_def Let_def)
  then show ?thesis by (intro exI [of _ "[]"]) simp
qed

lemma call_models_session:
  "fst (call_models w req optimized cfg i gs db) =
     db\<lparr>trace := trace db @ map (\<lambda>g. Image_call (truthy (image_file req)) (model g) optimized) gs\<rparr>"
proof (induction gs arbitrary: i db)
  case Nil
  then show ?case by simp
next
  case (Cons g gs)
  show ?case
    using Cons.IH [of "Suc i" "fst (call_ai_api w db i req optimized (model g) cfg)"]
    by (simp add: split_beta call_ai_api_def Let_def)
qed

lemma record_result_fields:
  "points_used (record_result w i res g) = points_used g"
  "optimized_prompt (record_result w i res g) = optimized_prompt g"
  "model (record_result w i res g) = model g"
  "status (record_result w i res g) = (case res of Success a b c \<Rightarrow> Completed | Failure m \<Rightarrow> Failed)"
  by (simp_all add: record_result_def split: image_result.splits)

lemma call_models_length:
  "length (snd (call_models w req optimized cfg i gs db)) = length gs"
  by (induction gs arbitrary: i db) (simp_all add: split_beta)

lemma call_models_points_used:
  "map points_used (snd (call_models w req optimized cfg i gs db)) = map points_used gs"
  by (induction gs arbitrary: i db) (simp_all add: split_beta record_result_fields)

lemma call_models_optimized_prompt:
  "map optimized_prompt (snd (call_models w req optimized cfg i gs db)) = map optimized_prompt gs"
  by (induction gs arbitrary: i db) (simp_all add: split_beta record_result_fields)

lemma call_models_status:
  "g \<in> set (snd (call_models w req optimized cfg i gs db)) \<Longrightarrow>
     status g = Completed \<or> status g = Failed"
  by (induction gs arbitrary: i db)
     (auto simp add: split_beta record_result_fields split: image_result.splits)


lemma debits_append: "debits (xs @ ys) = debits xs @ debits ys"
  by (induction xs rule: debits.induct) simp_all

lemma debits_image_calls: "debits (map (\<lambda>g. Image_call b (f g) p) gs) = []"
  by (induction gs) simp_all

lemma after_create_session:
  "\<exists>evs. fst (after_create w db uid req cfg) =
            db\<lparr>generations := generations db @ snd (after_create w db uid req cfg),
               trace := trace db @ evs\<rparr>
        \<and> debits evs = [] \<and> length evs \<le> 1"
proof -
  obtain evs where e: "fst (resolve_prompt w db req cfg) = db\<lparr>trace := trace db @ evs\<rparr>"
    "debits evs = []" "length evs \<le> 1"
    using resolve_prompt_session by blast
  have "fst (after_create w db uid req cfg) =
            db\<lparr>generations := generations db @ snd (after_create w db uid req cfg),
               trace := trace db @ evs\<rparr>"
    using e(1) by (simp add: after_create_def create_generations_def split_beta Let_def)
  with e(2,3) show ?thesis by blast
qed

lemma after_create_records:
  "snd (after_create w db uid req cfg) =
     map (new_generation uid req (snd (resolve_prompt w db req cfg))) (models req)"
  by (simp add: after_create_def create_generations_def split_beta Let_def)

lemma after_calls_eq:
  "after_calls w db uid req cfg =
     call_models w req (snd (resolve_prompt w db req cfg)) cfg 0
       (snd (after_create w db uid req cfg)) (fst (after_create w db uid req cfg))"
  by (simp add: after_calls_def after_create_def split_beta)

lemma after_calls_session:
  "\<exists>evs. fst (after_calls w db uid req cfg) =
            db\<lparr>generations := generations db @ snd (after_create w db uid req cfg),
               trace := trace db @ evs @
                 map (\<lambda>m. Image_call (truthy (image_file req)) m (snd (resolve_prompt w db req cfg)))
                   (models req)\<rparr>
        \<and> debits evs = [] \<and> length evs \<le> 1"
proof -
  obtain evs where e: "fst (after_create w db uid req cfg) =
            db\<lparr>generations := generations db @ snd (after_create w db uid req cfg),
               trace := trace db @ evs\<rparr>" "debits evs = []" "length evs \<le> 1"
    using after_create_session by blast
  have m: "map (\<lambda>g. Image_call (truthy (image_file req)) (model g) (snd (resolve_prompt w db req cfg)))
             (snd (after_create w db uid req cfg)) =
           map (\<lambda>m. Image_call (truthy (image_file req)) m (snd (resolve_prompt w db req cfg)))
             (models req)"
    by (simp add: after_create_records new_generation_def comp_def)
  have "fst (after_calls w db uid req cfg) =
            db\<lparr>generations := generations db @ snd (after_create w db uid req cfg),
               trace := trace db @ evs @
                 map (\<lambda>m. Image_call (truthy (image_file req)) m (snd (resolve_prompt w db req cfg)))
                   (models req)\<rparr>"
    unfolding after_calls_eq call_models_session m using e(1) by simp
  with e(2,3) show ?thesis by blast
qed

lemma after_calls_length:
  "length (snd (after_calls w db uid req cfg)) = length (models req)"
  by (simp add: after_calls_eq call_models_length after_create_records)

lemma after_calls_points_used:
  "g \<in> set (snd (after_calls w db uid req cfg)) \<Longrightarrow> points_used g = 1"
proof -
  assume g: "g \<in> set (snd (after_calls w db uid req cfg))"
  have "map points_used (snd (after_calls w db uid req cfg)) = map (\<lambda>m. 1) (models req)"
    by (simp add: after_calls_eq call_models_points_used after_create_records
        new_generation_def comp_def)
  moreover from g have "points_used g \<in> set (map points_used (snd (after_calls w db uid req cfg)))"
    by simp
  ultimately show ?thesis by auto
qed

lemma after_calls_status:
  "g \<in> set (snd (after_calls w db uid req cfg)) \<Longrightarrow> status g = Completed \<or> status g = Failed"
  unfolding after_calls_eq by (rule call_models_status)

text \<open>The three ways settlement can go.\<close>

lemma generate_image_pre:
  assumes "users db uid = Some u" "1 \<le> points u" "get_active_api_config db = Some cfg"
  shows "generate_image w db uid req =
     (case settle (fst (after_calls w db uid req cfg)) uid req (snd (after_calls w db uid req cfg)) of
        (db4, Inr gens') \<Rightarrow> (db4, Inr gens')
      | (db4, Inl e) \<Rightarrow>
          (case fail_batch e (snd (after_calls w db uid req cfg)) db4 of
             (db5, gens') \<Rightarrow> (db5, Inr gens')))"
  using assms by (simp add: generate_image_def get_user_by_id_def split_beta)

lemma after_calls_users:
  "users (fst (after_calls w db uid req cfg)) = users db"
  using after_calls_session [of w db uid req cfg] by auto

lemma generate_image_none_completed:
  assumes "users db uid = Some u" "1 \<le> points u" "get_active_api_config db = Some cfg"
    and "successful_generations (snd (after_calls w db uid req cfg)) = 0"
  shows "generate_image w db uid req =
     (commit_batch (map no_charge (snd (after_calls w db uid req cfg)))
        (fst (after_calls w db uid req cfg)),
      Inr (map no_charge (snd (after_calls w db uid req cfg))))"
  using assms(4) by (simp add: generate_image_pre [OF assms(1-3)] settle_def Let_def)

lemma generate_image_debit_refused:
  assumes "users db uid = Some u" "1 \<le> points u" "get_active_api_config db = Some cfg"
    and "0 < successful_generations (snd (after_calls w db uid req cfg))"
    and "points u < points_to_deduct req"
  shows "generate_image w db uid req =
     (commit_batch (map (mark_failed (HTTPException 400 Insufficient_points))
                      (snd (after_calls w db uid req cfg)))
        (fst (after_calls w db uid req cfg)),
      Inr (map (mark_failed (HTTPException 400 Insufficient_points))
             (snd (after_calls w db uid req cfg))))"
proof -
  have "users (fst (after_calls w db uid req cfg)) uid = Some u"
    using assms(1) by (simp add: after_calls_users)
  from deduct_points_raises [OF this assms(5)] assms(4) show ?thesis
    by (simp add: generate_image_pre [OF assms(1-3)] settle_def fail_batch_def Let_def)
qed

lemma generate_image_debited:
  assumes "users db uid = Some u" "1 \<le> points u" "get_active_api_config db = Some cfg"
    and "0 < successful_generations (snd (after_calls w db uid req cfg))"
    and "points_to_deduct req \<le> points u"
  shows "generate_image w db uid req =
     (commit_batch (map (charge_record (points_to_deduct req)) (snd (after_calls w db uid req cfg)))
        ((fst (after_calls w db uid req cfg))
           \<lparr>users := (users db)(uid \<mapsto> u\<lparr>points := points u - points_to_deduct req\<rparr>),
            trace := trace (fst (after_calls w db uid req cfg)) @ [Debit uid (points_to_deduct req)]\<rparr>),
      Inr (map (charge_record (points_to_deduct req)) (snd (after_calls w db uid req cfg))))"
proof -
  have "users (fst (after_calls w db uid req cfg)) uid = Some u"
    using assms(1) by (simp add: after_calls_users)
  from deduct_points_ok [OF this assms(5)] assms(4) show ?thesis
    by (simp add: generate_image_pre [OF assms(1-3)] settle_def Let_def after_calls_users)
qed

lemma commit_batch_fields:
  "users (commit_batch gs db) = users db"
  "trace (commit_batch gs db) = trace db"
  "api_configs (commit_batch gs db) = api_configs db"
  by (simp_all add: commit_batch_def)

lemma successful_generations_pos:
  "0 < successful_generations gs \<longleftrightarrow> (\<exists>g\<in>set gs. status g = Completed)"
  by (auto simp add: successful_generations_def filter_empty_conv)

lemma after_calls_debits:
  "\<exists>evs. trace (fst (after_calls w db uid req cfg)) = trace db @ evs \<and> debits evs = []"
proof -
  obtain evs where e: "fst (after_calls w db uid req cfg) =
            db\<lparr>generations := generations db @ snd (after_create w db uid req cfg),
               trace := trace db @ evs @
                 map (\<lambda>m. Image_call (truthy (image_file req)) m (snd (resolve_prompt w db req cfg)))
                   (models req)\<rparr>" "debits evs = []"
    using after_calls_session by blast
  have "debits (evs @ map (\<lambda>m. Image_call (truthy (image_file req)) m (snd (resolve_prompt w db req cfg)))
                   (models req)) = []"
    using e(2) by (simp add: debits_append debits_image_calls)
  moreover have "trace (fst (after_calls w db uid req cfg)) = trace db @ (evs @
                 map (\<lambda>m. Image_call (truthy (image_file req)) m (snd (resolve_prompt w db req cfg)))
                   (models req))"
    using e(1) by simp
  ultimately show ?thesis by blast
qed

lemma status_no_charge [simp]: "status (no_charge g) = status g"
  by (simp add: no_charge_def)

lemma status_mark_failed [simp]: "status (mark_failed e g) = Failed"
  by (simp add: mark_failed_def)

lemma points_used_no_charge [simp]: "points_used (no_charge g) = 0"
  by (simp add: no_charge_def)

lemma points_used_mark_failed [simp]: "points_used (mark_failed e g) = 0"
  by (simp add: mark_failed_def)

lemma status_charge_record [simp]: "status (charge_record c g) = status g"
  by (simp add: charge_record_def)

lemma points_used_charge_record:
  "points_used (charge_record c g) = (if status g = Completed then c else 0)"
  by (simp add: charge_record_def)

lemma points_to_deduct_eq: "points_to_deduct req = (if enable_optimization req then 2 else 1)"
  by (simp add: points_to_deduct_def)

lemma generate_image_cases:
  "(\<exists>e. generate_image w db uid req = (db, Inl e)) \<or>
   (\<exists>u cfg. users db uid = Some u \<and> 1 \<le> points u \<and> get_active_api_config db = Some cfg)"
  by (auto simp add: generate_image_def get_user_by_id_def split: option.splits)

lemma generate_image_settled:
  assumes "users db uid = Some u" "1 \<le> points u" "get_active_api_config db = Some cfg"
  shows "(successful_generations (snd (after_calls w db uid req cfg)) = 0
          \<and> generate_image w db uid req =
              (commit_batch (map no_charge (snd (after_calls w db uid req cfg)))
                 (fst (after_calls w db uid req cfg)),
               Inr (map no_charge (snd (after_calls w db uid req cfg)))))
       \<or> (0 < successful_generations (snd (after_calls w db uid req cfg))
          \<and> points u < points_to_deduct req
          \<and> generate_image w db uid req =
              (commit_batch (map (mark_failed (HTTPException 400 Insufficient_points))
                               (snd (after_calls w db uid req cfg)))
                 (fst (after_calls w db uid req cfg)),
               Inr (map (mark_failed (HTTPException 400 Insufficient_points))
                      (snd (after_calls w db uid req cfg)))))
       \<or> (0 < successful_generations (snd (after_calls w db uid req cfg))
          \<and> points_to_deduct req \<le> points u
          \<and> generate_image w db uid req =
              (commit_batch (map (charge_record (points_to_deduct req))
                               (snd (after_calls w db uid req cfg)))
                 ((fst (after_calls w db uid req cfg))
                    \<lparr>users := (users db)(uid \<mapsto> u\<lparr>points := points u - points_to_deduct req\<rparr>),
                     trace := trace (fst (after_calls w db uid req cfg))
                                @ [Debit uid (points_to_deduct req)]\<rparr>),
               Inr (map (charge_record (points_to_deduct req))
                      (snd (after_calls w db uid req cfg)))))"
proof (cases "successful_generations (snd (after_calls w db uid req cfg)) = 0")
  case True
  from generate_image_none_completed [OF assms True] True show ?thesis by blast
next
  case False
  then have pos: "0 < successful_generations (snd (after_calls w db uid req cfg))" by simp
  show ?thesis
  proof (cases "points u < points_to_deduct req")
    case True
    from generate_image_debit_refused [OF assms pos True] pos True show ?thesis by blast
  next
    case False
    then have "points_to_deduct req \<le> points u" by simp
    from generate_image_debited [OF assms pos this] pos this show ?thesis by blast
  qed
qed

text \<open>What each outcome means for the returned records, the debits, the accounts.\<close>

lemma new_events_debits_none:
  assumes "trace db' = trace (fst (after_calls w db uid req cfg))"
  shows "debits (new_events db db') = []"
proof -
  obtain evs where "trace (fst (after_calls w db uid req cfg)) = trace db @ evs" "debits evs = []"
    using after_calls_debits by blast
  then show ?thesis using assms by (simp add: new_events_def)
qed

lemma new_events_debits_one:
  assumes "trace db' = trace (fst (after_calls w db uid req cfg)) @ [Debit uid c]"
  shows "debits (new_events db db') = [c]"
proof -
  obtain evs where "trace (fst (after_calls w db uid req cfg)) = trace db @ evs" "debits evs = []"
    using after_calls_debits by blast
  then show ?thesis using assms by (simp add: new_events_def debits_append)
qed

lemma no_success_all_failed:
  assumes "successful_generations (snd (after_calls w db uid req cfg)) = 0"
    and "g \<in> set (snd (after_calls w db uid req cfg))"
  shows "status g = Failed"
proof -
  from assms have "status g \<noteq> Completed"
    by (auto simp add: successful_generations_def filter_empty_conv)
  with after_calls_status [OF assms(2)] show ?thesis by simp
qed

section \<open>Settlement\<close>

text \<open>
  Claim C1. Whenever a call of \<^verbatim>\<open>generate_image\<close> returns at least one record
  with status \<^verbatim>\<open>completed\<close>, the account was debited once, by 1 when
  \<^verbatim>\<open>enable_optimization\<close> is false and by 2 when it is true, whatever the number of
  models requested and of models that succeeded; no other account changed; every
  returned \<^verbatim>\<open>completed\<close> record has \<^verbatim>\<open>points_used\<close> equal to that charge and
  every \<^verbatim>\<open>failed\<close> one has 0; there is one record per requested model.
\<close>

theorem flat_batch_charge:
  assumes some: "\<exists>g\<in>set (returned (generate_image w db uid req)). status g = Completed"
  shows "\<exists>u. users db uid = Some u
       \<and> users (fst (generate_image w db uid req)) =
           (users db)(uid \<mapsto> u\<lparr>points := points u - (if enable_optimization req then 2 else 1)\<rparr>)
       \<and> debits (new_events db (fst (generate_image w db uid req))) =
           [if enable_optimization req then 2 else 1]
       \<and> (\<forall>g\<in>set (returned (generate_image w db uid req)).
             (status g = Completed \<longrightarrow>
                points_used g = (if enable_optimization req then 2 else 1))
           \<and> (status g = Failed \<longrightarrow> points_used g = 0))
       \<and> length (returned (generate_image w db uid req)) = length (models req)"
proof -
  let ?r = "generate_image w db uid req"
  let ?c = "points_to_deduct req"
  from generate_image_cases [of w db uid req] some
  obtain u cfg where pre: "users db uid = Some u" "1 \<le> points u"
      "get_active_api_config db = Some cfg"
    by (auto simp add: returned_def)
  let ?db3 = "fst (after_calls w db uid req cfg)"
  let ?gs = "snd (after_calls w db uid req cfg)"
  from generate_image_settled [OF pre, of w req] show ?thesis
  proof (elim disjE conjE)
    assume z: "successful_generations ?gs = 0"
      and r: "?r = (commit_batch (map no_charge ?gs) ?db3, Inr (map no_charge ?gs))"
    have "\<not> (\<exists>g\<in>set (returned ?r). status g = Completed)"
      using no_success_all_failed [OF z] by (auto simp add: r returned_def)
    with some show ?thesis by simp
  next
    assume r: "?r = (commit_batch (map (mark_failed (HTTPException 400 Insufficient_points)) ?gs) ?db3,
                     Inr (map (mark_failed (HTTPException 400 Insufficient_points)) ?gs))"
    have "\<not> (\<exists>g\<in>set (returned ?r). status g = Completed)"
      by (simp add: r returned_def)
    with some show ?thesis by simp
  next
    assume r: "?r = (commit_batch (map (charge_record ?c) ?gs)
                       (?db3\<lparr>users := (users db)(uid \<mapsto> u\<lparr>points := points u - ?c\<rparr>),
                            trace := trace ?db3 @ [Debit uid ?c]\<rparr>),
                     Inr (map (charge_record ?c) ?gs))"
    have 1: "users (fst ?r) = (users db)(uid \<mapsto> u\<lparr>points := points u - ?c\<rparr>)"
      by (simp add: r commit_batch_fields)
    have 2: "debits (new_events db (fst ?r)) = [?c]"
      by (rule new_events_debits_one [where uid = uid]) (simp add: r commit_batch_fields)
    have 3: "\<forall>g\<in>set (returned ?r). (status g = Completed \<longrightarrow> points_used g = ?c)
                        \<and> (status g = Failed \<longrightarrow> points_used g = 0)"
      by (auto simp add: r returned_def points_used_charge_record)
    have 4: "length (returned ?r) = length (models req)"
      by (simp add: r returned_def after_calls_length)
    from pre(1) 1 2 3 4 show ?thesis
      unfolding points_to_deduct_eq by blast
  qed
qed

text \<open>
  The scenario of the specification: balance 5, optimization requested, models
  \<^verbatim>\<open>m1\<close> (succeeds) and \<^verbatim>\<open>m2\<close> (fails). One debit of 2, the balance becomes 3,
  the records report 2 and 0.
\<close>

theorem flat_batch_charge_witness:
  "(\<exists>g\<in>set (returned (generate_image (example_world (Raised (PyError ''ConnectError'')))
        (example_session 5 [example_config]) 1 (example_request True [''m1'', ''m2'']))).
      status g = Completed)
   \<and> debits (new_events (example_session 5 [example_config])
        (fst (generate_image (example_world (Raised (PyError ''ConnectError'')))
          (example_session 5 [example_config]) 1 (example_request True [''m1'', ''m2''])))) = [2]
   \<and> balance (fst (generate_image (example_world (Raised (PyError ''ConnectError'')))
        (example_session 5 [example_config]) 1 (example_request True [''m1'', ''m2'']))) 1 = Some 3
   \<and> map points_used (returned (generate_image (example_world (Raised (PyError ''ConnectError'')))
        (example_session 5 [example_config]) 1 (example_request True [''m1'', ''m2''])))
       = [2, 0]"
proof -
  let ?r = "generate_image (example_world (Raised (PyError ''ConnectError'')))
        (example_session 5 [example_config]) 1 (example_request True [''m1'', ''m2''])"
  have st: "map status (returned ?r) = [Completed, Failed]"
    by (simp add: example_defs run_defs Let_def)
  have h: "\<exists>g\<in>set (returned ?r). status g = Completed"
  proof -
    from st obtain g gs where "returned ?r = g # gs" "status g = Completed" by auto
    then show ?thesis by auto
  qed
  have e: "(if enable_optimization (example_request True [''m1'', ''m2'']) then 2 else 1) = (2::int)"
    by (simp add: example_request_def)
  from flat_batch_charge [OF h]
  have d: "debits (new_events (example_session 5 [example_config]) (fst ?r)) = [2]"
    unfolding e by blast
  have b: "balance (fst ?r) 1 = Some 3"
    by (simp add: example_defs run_defs Let_def)
  have p: "map points_used (returned ?r) = [2, 0]"
    by (simp add: example_defs run_defs Let_def)
  from h d b p show ?thesis by blast
qed

text \<open>
  Claim C2, as stated, fails when "a record is completed" is read where settlement reads
  it, after the loop over the models. With balance 1 and optimization requested the
  record of \<^verbatim>\<open>m1\<close> is \<^verbatim>\<open>completed\<close> at that point, yet the account is not debited:
  the debit of 2 is refused.
\<close>

theorem completed_without_debit_counterexample:
  "map status (snd (after_calls (example_world (Raised (PyError ''ConnectError'')))
      (example_session 1 [example_config]) 1 (example_request True [''m1'']) example_config))
     = [Completed]
   \<and> debits (new_events (example_session 1 [example_config])
       (fst (generate_image (example_world (Raised (PyError ''ConnectError'')))
          (example_session 1 [example_config]) 1 (example_request True [''m1''])))) = []
   \<and> balance (fst (generate_image (example_world (Raised (PyError ''ConnectError'')))
          (example_session 1 [example_config]) 1 (example_request True [''m1'']))) 1 = Some 1"
  by (simp add: example_defs run_defs Let_def)

text \<open>
  Claim C2, as amended. A call of \<^verbatim>\<open>generate_image\<close> debits the account at most
  once. For a call that passes its preconditions the debit happens exactly when a record
  is \<^verbatim>\<open>completed\<close> after the loop over the models and the balance covers the charge;
  it is then one debit of the charge, taken from this account only. In every other case
  nothing is debited and no balance changes: no record completed, or the debit refused
  because the balance is below the charge; a call that raises leaves the session as it
  was. Read on the records as returned: there is a debit exactly when a returned record
  is \<^verbatim>\<open>completed\<close>, and when every returned record is \<^verbatim>\<open>failed\<close>, no balance has
  changed and every returned record has \<^verbatim>\<open>points_used\<close> 0.
\<close>

theorem debit_at_most_once:
  "length (debits (new_events db (fst (generate_image w db uid req)))) \<le> 1
   \<and> (users db uid = Some u \<and> 1 \<le> points u \<and> get_active_api_config db = Some cfg \<longrightarrow>
        debits (new_events db (fst (generate_image w db uid req))) =
          (if (\<exists>g\<in>set (snd (after_calls w db uid req cfg)). status g = Completed)
              \<and> points_to_deduct req \<le> points u
           then [points_to_deduct req] else [])
      \<and> users (fst (generate_image w db uid req)) =
          (if (\<exists>g\<in>set (snd (after_calls w db uid req cfg)). status g = Completed)
              \<and> points_to_deduct req \<le> points u
           then (users db)(uid \<mapsto> u\<lparr>points := points u - points_to_deduct req\<rparr>)
           else users db))
   \<and> ((\<exists>e. snd (generate_image w db uid req) = Inl e) \<longrightarrow>
        fst (generate_image w db uid req) = db)
   \<and> (length (debits (new_events db (fst (generate_image w db uid req)))) = 1
        \<longleftrightarrow> (\<exists>g\<in>set (returned (generate_image w db uid req)). status g = Completed))
   \<and> ((\<forall>g\<in>set (returned (generate_image w db uid req)). status g = Failed) \<longrightarrow>
         users (fst (generate_image w db uid req)) = users db
       \<and> (\<forall>g\<in>set (returned (generate_image w db uid req)). points_used g = 0))"
proof -
  let ?r = "generate_image w db uid req"
  let ?c = "points_to_deduct req"
  have settled: "debits (new_events db (fst ?r)) =
          (if (\<exists>g\<in>set (snd (after_calls w db uid req cfg)). status g = Completed) \<and> ?c \<le> points u
           then [?c] else [])
      \<and> users (fst ?r) =
          (if (\<exists>g\<in>set (snd (after_calls w db uid req cfg)). status g = Completed) \<and> ?c \<le> points u
           then (users db)(uid \<mapsto> u\<lparr>points := points u - ?c\<rparr>) else users db)
      \<and> (length (debits (new_events db (fst ?r))) = 1
            \<longleftrightarrow> (\<exists>g\<in>set (returned ?r). status g = Completed))
      \<and> ((\<forall>g\<in>set (returned ?r). status g = Failed) \<longrightarrow>
            users (fst ?r) = users db \<and> (\<forall>g\<in>set (returned ?r). points_used g = 0))"
    if pre: "users db uid = Some u" "1 \<le> points u" "get_active_api_config db = Some cfg"
    for u cfg
  proof -
    let ?db3 = "fst (after_calls w db uid req cfg)"
    let ?gs = "snd (after_calls w db uid req cfg)"
    from generate_image_settled [OF pre, of w req] show ?thesis
    proof (elim disjE conjE)
      assume z: "successful_generations ?gs = 0"
        and r: "?r = (commit_batch (map no_charge ?gs) ?db3, Inr (map no_charge ?gs))"
      have n: "\<not> (\<exists>g\<in>set ?gs. status g = Completed)"
        using z by (simp add: successful_generations_pos [symmetric])
      have d: "debits (new_events db (fst ?r)) = []"
        by (rule new_events_debits_none) (simp add: r commit_batch_fields)
      have c: "\<not> (\<exists>g\<in>set (returned ?r). status g = Completed)"
        using n by (simp add: r returned_def)
      have us: "users (fst ?r) = users db"
        by (simp add: r commit_batch_fields after_calls_users)
      have p: "\<forall>g\<in>set (returned ?r). points_used g = 0"
        by (simp add: r returned_def)
      show ?thesis using n d c us p by simp
    next
      assume pos: "0 < successful_generations ?gs" and low: "points u < ?c"
        and r: "?r = (commit_batch (map (mark_failed (HTTPException 400 Insufficient_points)) ?gs) ?db3,
                      Inr (map (mark_failed (HTTPException 400 Insufficient_points)) ?gs))"
      have d: "debits (new_events db (fst ?r)) = []"
        by (rule new_events_debits_none) (simp add: r commit_batch_fields)
      have c: "\<not> (\<exists>g\<in>set (returned ?r). status g = Completed)"
        by (simp add: r returned_def)
      have us: "users (fst ?r) = users db"
        by (simp add: r commit_batch_fields after_calls_users)
      have p: "\<forall>g\<in>set (returned ?r). points_used g = 0"
        by (simp add: r returned_def)
      have l: "\<not> ?c \<le> points u" using low by simp
      show ?thesis using l d c us p by simp
    next
      assume pos: "0 < successful_generations ?gs" and enough: "?c \<le> points u"
        and r: "?r = (commit_batch (map (charge_record ?c) ?gs)
                       (?db3\<lparr>users := (users db)(uid \<mapsto> u\<lparr>points := points u - ?c\<rparr>),
                            trace := trace ?db3 @ [Debit uid ?c]\<rparr>),
                      Inr (map (charge_record ?c) ?gs))"
      have y: "\<exists>g\<in>set ?gs. status g = Completed"
        using pos by (simp add: successful_generations_pos)
      have d: "debits (new_events db (fst ?r)) = [?c]"
        by (rule new_events_debits_one [where uid = uid]) (simp add: r commit_batch_fields)
      have c: "\<exists>g\<in>set (returned ?r). status g = Completed"
        using y by (simp add: r returned_def)
      then have n: "\<not> (\<forall>g\<in>set (returned ?r). status g = Failed)" by force
      have us: "users (fst ?r) = (users db)(uid \<mapsto> u\<lparr>points := points u - ?c\<rparr>)"
        by (simp add: r commit_batch_fields)
      show ?thesis
      proof (intro conjI)
        show "debits (new_events db (fst ?r)) =
          (if (\<exists>g\<in>set ?gs. status g = Completed) \<and> ?c \<le> points u then [?c] else [])"
          using y enough d by simp
        show "users (fst ?r) =
          (if (\<exists>g\<in>set ?gs. status g = Completed) \<and> ?c \<le> points u
           then (users db)(uid \<mapsto> u\<lparr>points := points u - ?c\<rparr>) else users db)"
          using y enough us by simp
        show "(length (debits (new_events db (fst ?r))) = 1)
                = (\<exists>g\<in>set (returned ?r). status g = Completed)" using d c by simp
        show "(\<forall>g\<in>set (returned ?r). status g = Failed) \<longrightarrow>
                users (fst ?r) = users db \<and> (\<forall>g\<in>set (returned ?r). points_used g = 0)"
          using n by blast
      qed
    qed
  qed
  have raised: "?r = (db, Inl e) \<Longrightarrow>
      length (debits (new_events db (fst ?r))) \<le> 1
      \<and> (length (debits (new_events db (fst ?r))) = 1
            \<longleftrightarrow> (\<exists>g\<in>set (returned ?r). status g = Completed))
      \<and> ((\<forall>g\<in>set (returned ?r). status g = Failed) \<longrightarrow>
            users (fst ?r) = users db \<and> (\<forall>g\<in>set (returned ?r). points_used g = 0))" for e
    by (simp add: new_events_def returned_def)
  have inl: "(\<exists>e. snd ?r = Inl e) \<longrightarrow> fst ?r = db"
  proof
    assume e: "\<exists>e. snd ?r = Inl e"
    from generate_image_cases [of w db uid req] show "fst ?r = db"
    proof (elim disjE exE conjE)
      fix e' assume "?r = (db, Inl e')" then show ?thesis by simp
    next
      fix u' cfg'
      assume "users db uid = Some u'" "1 \<le> points u'" "get_active_api_config db = Some cfg'"
      from generate_image_settled [OF this, of w req] e show ?thesis by auto
    qed
  qed
  have part2: "users db uid = Some u \<and> 1 \<le> points u \<and> get_active_api_config db = Some cfg \<longrightarrow>
        debits (new_events db (fst ?r)) =
          (if (\<exists>g\<in>set (snd (after_calls w db uid req cfg)). status g = Completed) \<and> ?c \<le> points u
           then [?c] else [])
      \<and> users (fst ?r) =
          (if (\<exists>g\<in>set (snd (after_calls w db uid req cfg)). status g = Completed) \<and> ?c \<le> points u
           then (users db)(uid \<mapsto> u\<lparr>points := points u - ?c\<rparr>) else users db)"
    using settled by blast
  have rest: "length (debits (new_events db (fst ?r))) \<le> 1
      \<and> (length (debits (new_events db (fst ?r))) = 1
            \<longleftrightarrow> (\<exists>g\<in>set (returned ?r). status g = Completed))
      \<and> ((\<forall>g\<in>set (returned ?r). status g = Failed) \<longrightarrow>
            users (fst ?r) = users db \<and> (\<forall>g\<in>set (returned ?r). points_used g = 0))"
  proof -
    from generate_image_cases [of w db uid req] show ?thesis
    proof (elim disjE exE conjE)
      fix e assume "?r = (db, Inl e)" then show ?thesis by (rule raised)
    next
      fix u' cfg'
      assume pre: "users db uid = Some u'" "1 \<le> points u'" "get_active_api_config db = Some cfg'"
      note s = settled [OF pre]
      from s have "length (debits (new_events db (fst ?r))) \<le> 1"
        by (simp split: if_splits)
      with s show ?thesis by blast
    qed
  qed
  from part2 inl rest show ?thesis by blast
qed

text \<open>
  The theorem on two scenarios of the specification, both with balance 5 and
  optimization requested: \<^verbatim>\<open>m1\<close> succeeds and \<^verbatim>\<open>m2\<close> fails (one debit of 2, the
  balance becomes 3); the only model \<^verbatim>\<open>m2\<close> fails (no debit, the balance stays 5, the
  record reports 0).
\<close>

theorem debit_at_most_once_witness:
  "debits (new_events (example_session 5 [example_config])
        (fst (generate_image (example_world (Raised (PyError ''ConnectError'')))
          (example_session 5 [example_config]) 1 (example_request True [''m1'', ''m2''])))) = [2]
   \<and> balance (fst (generate_image (example_world (Raised (PyError ''ConnectError'')))
          (example_session 5 [example_config]) 1 (example_request True [''m1'', ''m2'']))) 1 = Some 3
   \<and> debits (new_events (example_session 5 [example_config])
        (fst (generate_image (example_world (Raised (PyError ''ConnectError'')))
          (example_session 5 [example_config]) 1 (example_request True [''m2''])))) = []
   \<and> users (fst (generate_image (example_world (Raised (PyError ''ConnectError'')))
        (example_session 5 [example_config]) 1 (example_request True [''m2''])))
       = users (example_session 5 [example_config])
   \<and> map points_used (returned (generate_image (example_world (Raised (PyError ''ConnectError'')))
        (example_session 5 [example_config]) 1 (example_request True [''m2'']))) = [0]"
proof -
  let ?w = "example_world (Raised (PyError ''ConnectError''))"
  let ?db = "example_session 5 [example_config]"
  let ?ok = "example_request True [''m1'', ''m2'']"
  let ?bad = "example_request True [''m2'']"
  let ?u = "\<lparr>username = ''ann'', points = 5\<rparr>"
  have pre: "users ?db 1 = Some ?u \<and> 1 \<le> points ?u \<and> get_active_api_config ?db = Some example_config"
    by (simp add: get_active_api_config_def example_session_def example_config_def)
  have st: "map status (snd (after_calls ?w ?db 1 ?ok example_config)) = [Completed, Failed]"
    by (simp add: example_defs run_defs Let_def)
  have h: "(\<exists>g\<in>set (snd (after_calls ?w ?db 1 ?ok example_config)). status g = Completed)
      \<and> points_to_deduct ?ok \<le> points ?u"
  proof -
    from st obtain g gs where "snd (after_calls ?w ?db 1 ?ok example_config) = g # gs"
      "status g = Completed" by auto
    then show ?thesis by (auto simp add: points_to_deduct_def)
  qed
  have c: "points_to_deduct ?ok = 2" by (simp add: points_to_deduct_def example_request_def)
  note t = debit_at_most_once [of ?db ?w 1 ?ok ?u example_config]
  from t pre have "debits (new_events ?db (fst (generate_image ?w ?db 1 ?ok))) =
          (if (\<exists>g\<in>set (snd (after_calls ?w ?db 1 ?ok example_config)). status g = Completed)
              \<and> points_to_deduct ?ok \<le> points ?u
           then [points_to_deduct ?ok] else [])"
    by blast
  with h c have 1: "debits (new_events ?db (fst (generate_image ?w ?db 1 ?ok))) = [2]"
    by simp
  from t pre have "users (fst (generate_image ?w ?db 1 ?ok)) =
          (if (\<exists>g\<in>set (snd (after_calls ?w ?db 1 ?ok example_config)). status g = Completed)
              \<and> points_to_deduct ?ok \<le> points ?u
           then (users ?db)(1 \<mapsto> ?u\<lparr>points := points ?u - points_to_deduct ?ok\<rparr>)
           else users ?db)"
    by blast
  with h c have 2: "balance (fst (generate_image ?w ?db 1 ?ok)) 1 = Some 3"
    by (simp add: balance_def)
  have sb: "map status (returned (generate_image ?w ?db 1 ?bad)) = [Failed]"
    by (simp add: example_defs run_defs Let_def)
  then obtain g where g: "returned (generate_image ?w ?db 1 ?bad) = [g]" "status g = Failed"
    by auto
  then have hb: "\<forall>g\<in>set (returned (generate_image ?w ?db 1 ?bad)). status g = Failed" by simp
  note tb = debit_at_most_once [of ?db ?w 1 ?bad ?u example_config]
  from tb hb have 4: "users (fst (generate_image ?w ?db 1 ?bad)) = users ?db"
    and z: "\<forall>g\<in>set (returned (generate_image ?w ?db 1 ?bad)). points_used g = 0"
    by blast+
  from z g have 5: "map points_used (returned (generate_image ?w ?db 1 ?bad)) = [0]" by simp
  have nb: "\<not> (\<exists>g\<in>set (returned (generate_image ?w ?db 1 ?bad)). status g = Completed)"
    using g by simp
  from tb nb have "length (debits (new_events ?db (fst (generate_image ?w ?db 1 ?bad)))) \<noteq> 1"
    and "length (debits (new_events ?db (fst (generate_image ?w ?db 1 ?bad)))) \<le> 1"
    by blast+
  then have 3: "debits (new_events ?db (fst (generate_image ?w ?db 1 ?bad))) = []"
    by (cases "debits (new_events ?db (fst (generate_image ?w ?db 1 ?bad)))") simp_all
  from 1 2 3 4 5 show ?thesis by blast
qed

section \<open>Records before and after settlement\<close>

lemma commit_batch_generations:
  "generations db = old @ gs0 \<Longrightarrow> length gs0 = length gs \<Longrightarrow>
     generations (commit_batch gs db) = old @ gs"
  by (simp add: commit_batch_def)

lemma after_calls_generations:
  "generations (fst (after_calls w db uid req cfg)) =
     generations db @ snd (after_create w db uid req cfg)"
  using after_calls_session [of w db uid req cfg] by auto

lemma after_create_length:
  "length (snd (after_create w db uid req cfg)) = length (models req)"
  by (simp add: after_create_records)

lemma generate_image_generations:
  "generations (fst (generate_image w db uid req)) =
     generations db @ returned (generate_image w db uid req)"
proof -
  let ?r = "generate_image w db uid req"
  from generate_image_cases [of w db uid req] show ?thesis
  proof (elim disjE exE conjE)
    fix e assume "?r = (db, Inl e)"
    then show ?thesis by (simp add: returned_def)
  next
    fix u cfg
    assume pre: "users db uid = Some u" "1 \<le> points u" "get_active_api_config db = Some cfg"
    let ?db3 = "fst (after_calls w db uid req cfg)"
    let ?gs = "snd (after_calls w db uid req cfg)"
    have g: "generations ?db3 = generations db @ snd (after_create w db uid req cfg)"
      by (rule after_calls_generations)
    have l: "\<And>f. length (snd (after_create w db uid req cfg)) = length (map f ?gs)"
      by (simp add: after_create_length after_calls_length)
    from generate_image_settled [OF pre, of w req] show ?thesis
    proof (elim disjE conjE)
      assume r: "?r = (commit_batch (map no_charge ?gs) ?db3, Inr (map no_charge ?gs))"
      show ?thesis
        by (simp add: r returned_def commit_batch_generations [OF g l])
    next
      assume r: "?r = (commit_batch (map (mark_failed (HTTPException 400 Insufficient_points)) ?gs) ?db3,
                     Inr (map (mark_failed (HTTPException 400 Insufficient_points)) ?gs))"
      show ?thesis
        by (simp add: r returned_def commit_batch_generations [OF g l])
    next
      let ?c = "points_to_deduct req"
      assume r: "?r = (commit_batch (map (charge_record ?c) ?gs)
                       (?db3\<lparr>users := (users db)(uid \<mapsto> u\<lparr>points := points u - ?c\<rparr>),
                            trace := trace ?db3 @ [Debit uid ?c]\<rparr>),
                     Inr (map (charge_record ?c) ?gs))"
      have g': "generations (?db3\<lparr>users := (users db)(uid \<mapsto> u\<lparr>points := points u - ?c\<rparr>),
                            trace := trace ?db3 @ [Debit uid ?c]\<rparr>)
                = generations db @ snd (after_create w db uid req cfg)"
        using g by simp
      show ?thesis
        by (simp add: r returned_def commit_batch_generations [OF g' l])
    qed
  qed
qed

lemma returned_failed_uncharged:
  "g \<in> set (returned (generate_image w db uid req)) \<Longrightarrow> status g = Failed \<Longrightarrow> points_used g = 0"
proof -
  assume g: "g \<in> set (returned (generate_image w db uid req))" and f: "status g = Failed"
  let ?r = "generate_image w db uid req"
  from generate_image_cases [of w db uid req] g
  obtain u cfg where pre: "users db uid = Some u" "1 \<le> points u"
      "get_active_api_config db = Some cfg"
    by (auto simp add: returned_def)
  from generate_image_settled [OF pre, of w req] show ?thesis
    using g f by (auto simp add: returned_def points_used_charge_record)
qed

text \<open>
  Claim C3, as stated, fails: the records are created, and committed, with
  \<^verbatim>\<open>points_used=1\<close> (the constructor call of line 107; 1 is also the default of the
  column). Here for a request of two models.
\<close>

theorem points_used_at_creation_counterexample:
  "map points_used (snd (after_create (example_world (Raised (PyError ''ConnectError'')))
      (example_session 5 [example_config]) 1 (example_request False [''m1'', ''m2''])
      example_config)) = [1, 1]
   \<and> map points_used (generations (fst (after_create (example_world (Raised (PyError ''ConnectError'')))
      (example_session 5 [example_config]) 1 (example_request False [''m1'', ''m2''])
      example_config))) = [1, 1]
   \<and> map status (generations (fst (after_create (example_world (Raised (PyError ''ConnectError'')))
      (example_session 5 [example_config]) 1 (example_request False [''m1'', ''m2''])
      example_config))) = [Processing, Processing]"
  by (simp add: example_defs run_defs Let_def)

text \<open>
  Claim C3, as amended. Every record created by \<^verbatim>\<open>generate_image\<close> has
  \<^verbatim>\<open>points_used\<close> 1 and status \<^verbatim>\<open>processing\<close> when it is created and committed,
  and still has \<^verbatim>\<open>points_used\<close> 1 after the loop over the models, that is, until
  settlement (or the handler of the batch) writes the field. Once the call has returned,
  every record that ended \<^verbatim>\<open>failed\<close> has \<^verbatim>\<open>points_used\<close> 0, and the rows
  committed for the batch are the records returned.
\<close>

theorem points_used_lifecycle:
  "(\<forall>g\<in>set (snd (after_create w db uid req cfg)). points_used g = 1 \<and> status g = Processing)
   \<and> generations (fst (after_create w db uid req cfg)) =
       generations db @ snd (after_create w db uid req cfg)
   \<and> (\<forall>g\<in>set (snd (after_calls w db uid req cfg)). points_used g = 1)
   \<and> (\<forall>g\<in>set (returned (generate_image w db uid req)). status g = Failed \<longrightarrow> points_used g = 0)
   \<and> generations (fst (generate_image w db uid req)) =
       generations db @ returned (generate_image w db uid req)"
proof (intro conjI ballI impI)
  fix g assume "g \<in> set (snd (after_create w db uid req cfg))"
  then show "points_used g = 1" "status g = Processing"
    by (auto simp add: after_create_records new_generation_def)
next
  show "generations (fst (after_create w db uid req cfg)) =
       generations db @ snd (after_create w db uid req cfg)"
    using after_create_session [of w db uid req cfg] by auto
next
  fix g assume "g \<in> set (snd (after_calls w db uid req cfg))"
  then show "points_used g = 1" by (rule after_calls_points_used)
next
  fix g assume "g \<in> set (returned (generate_image w db uid req))" "status g = Failed"
  then show "points_used g = 0" by (rule returned_failed_uncharged)
next
  show "generations (fst (generate_image w db uid req)) =
       generations db @ returned (generate_image w db uid req)"
    by (rule generate_image_generations)
qed

text \<open>
  The theorem on the run with balance 5, optimization requested, \<^verbatim>\<open>m1\<close> succeeding
  and \<^verbatim>\<open>m2\<close> failing: 1 and 1 at creation, 2 and 0 in the end.
\<close>

theorem points_used_lifecycle_witness:
  "map points_used (snd (after_create (example_world (Raised (PyError ''ConnectError'')))
      (example_session 5 [example_config]) 1 (example_request True [''m1'', ''m2''])
      example_config)) = [1, 1]
   \<and> map status (returned (generate_image (example_world (Raised (PyError ''ConnectError'')))
      (example_session 5 [example_config]) 1 (example_request True [''m1'', ''m2''])))
       = [Completed, Failed]
   \<and> map points_used (generations (fst (generate_image
      (example_world (Raised (PyError ''ConnectError'')))
      (example_session 5 [example_config]) 1 (example_request True [''m1'', ''m2'']))))
       = [2, 0]"
proof -
  let ?w = "example_world (Raised (PyError ''ConnectError''))"
  let ?db = "example_session 5 [example_config]"
  let ?req = "example_request True [''m1'', ''m2'']"
  note t = points_used_lifecycle [of ?w ?db 1 ?req example_config]
  have 1: "map points_used (snd (after_create ?w ?db 1 ?req example_config)) = [1, 1]"
    by (simp add: example_defs run_defs Let_def)
  have 2: "map status (returned (generate_image ?w ?db 1 ?req)) = [Completed, Failed]"
    by (simp add: example_defs run_defs Let_def)
  have p: "map points_used (returned (generate_image ?w ?db 1 ?req)) = [2, 0]"
    by (simp add: example_defs run_defs Let_def)
  from t have "generations (fst (generate_image ?w ?db 1 ?req)) =
       generations ?db @ returned (generate_image ?w ?db 1 ?req)"
    by blast
  then have 3: "map points_used (generations (fst (generate_image ?w ?db 1 ?req))) = [2, 0]"
    using p by (simp add: example_session_def)
  from 1 2 3 show ?thesis by blast
qed

section \<open>Preconditions\<close>

text \<open>
  Claim C5. For an existing account, when the balance is below 1 or no provider
  configuration is active, \<^verbatim>\<open>generate_image\<close> raises: the 400 of the balance check
  when the balance is below 1 (this check comes first), the 500 of the configuration
  check otherwise. The session is then exactly as before the call: no event (neither an
  external call nor a debit) was added, no record was created, the balance is unchanged.
\<close>

theorem precondition_failure_no_effect:
  assumes "users db uid = Some u"
    and "points u < 1 \<or> get_active_api_config db = None"
  shows "generate_image w db uid req =
           (db, Inl (if points u < 1 then HTTPException 400 Points_not_enough
                     else HTTPException 500 Api_config_not_set))
       \<and> new_events db (fst (generate_image w db uid req)) = []
       \<and> generations (fst (generate_image w db uid req)) = generations db
       \<and> balance (fst (generate_image w db uid req)) uid = balance db uid"
proof -
  have r: "generate_image w db uid req =
           (db, Inl (if points u < 1 then HTTPException 400 Points_not_enough
                     else HTTPException 500 Api_config_not_set))"
    using assms by (auto simp add: generate_image_def get_user_by_id_def)
  then show ?thesis by (simp add: new_events_def)
qed

text \<open>The theorem at balance 0 with a configuration, and at balance 5 without one.\<close>

theorem precondition_failure_no_effect_witness:
  "generate_image (example_world (Replied (chat_response ''a fluffy cat'')))
       (example_session 0 [example_config]) 1 (example_request True [''m1''])
     = (example_session 0 [example_config], Inl (HTTPException 400 Points_not_enough))
   \<and> generate_image (example_world (Replied (chat_response ''a fluffy cat'')))
       (example_session 5 []) 1 (example_request True [''m1''])
     = (example_session 5 [], Inl (HTTPException 500 Api_config_not_set))"
proof -
  have u0: "users (example_session 0 [example_config]) 1 = Some \<lparr>username = ''ann'', points = 0\<rparr>"
    and u5: "users (example_session 5 []) 1 = Some \<lparr>username = ''ann'', points = 5\<rparr>"
    by (simp_all add: example_session_def)
  have p0: "points \<lparr>username = ''ann'', points = 0\<rparr> < 1
      \<or> get_active_api_config (example_session 0 [example_config]) = None" by simp
  have p5: "points \<lparr>username = ''ann'', points = 5\<rparr> < 1
      \<or> get_active_api_config (example_session 5 []) = None"
    by (simp add: get_active_api_config_def example_session_def)
  from precondition_failure_no_effect [OF u0 p0] precondition_failure_no_effect [OF u5 p5]
  show ?thesis by simp
qed

section \<open>Status lifecycle\<close>

text \<open>
  Claim C6, as stated, fails. With balance 1 and optimization requested, the record of
  \<^verbatim>\<open>m1\<close> is \<^verbatim>\<open>completed\<close> after the loop over the models; the settlement debit of
  2 then raises, and the handler of the batch marks the record \<^verbatim>\<open>failed\<close>.
\<close>

theorem completed_then_failed_counterexample:
  "map status (snd (after_calls (example_world (Raised (PyError ''ConnectError'')))
      (example_session 1 [example_config]) 1 (example_request True [''m1'']) example_config))
     = [Completed]
   \<and> map status (returned (generate_image (example_world (Raised (PyError ''ConnectError'')))
      (example_session 1 [example_config]) 1 (example_request True [''m1''])))
     = [Failed]"
  by (simp add: example_defs run_defs Let_def)

text \<open>
  Claim C6, as amended. Every record is created \<^verbatim>\<open>processing\<close>, and the loop over
  the models moves it to exactly one of \<^verbatim>\<open>completed\<close> and \<^verbatim>\<open>failed\<close>. After that
  the statuses are final, with one exception: when a record is \<^verbatim>\<open>completed\<close> and the
  settlement debit is refused (the balance is below the charge), the handler of the batch
  marks every record of the batch \<^verbatim>\<open>failed\<close>. A \<^verbatim>\<open>failed\<close> record is never changed
  to another status.
\<close>

theorem status_lifecycle:
  assumes "users db uid = Some u" "1 \<le> points u" "get_active_api_config db = Some cfg"
  shows "(\<forall>g\<in>set (snd (after_create w db uid req cfg)). status g = Processing)
       \<and> (\<forall>g\<in>set (snd (after_calls w db uid req cfg)). status g = Completed \<or> status g = Failed)
       \<and> (map status (returned (generate_image w db uid req))
            = map status (snd (after_calls w db uid req cfg))
          \<or> (points u < points_to_deduct req
              \<and> (\<exists>g\<in>set (snd (after_calls w db uid req cfg)). status g = Completed)
              \<and> map status (returned (generate_image w db uid req))
                  = map (\<lambda>g. Failed) (snd (after_calls w db uid req cfg))))"
proof (intro conjI ballI)
  fix g assume "g \<in> set (snd (after_create w db uid req cfg))"
  then show "status g = Processing"
    by (auto simp add: after_create_records new_generation_def)
next
  fix g assume "g \<in> set (snd (after_calls w db uid req cfg))"
  then show "status g = Completed \<or> status g = Failed" by (rule after_calls_status)
next
  from generate_image_settled [OF assms, of w req]
  show "map status (returned (generate_image w db uid req))
            = map status (snd (after_calls w db uid req cfg))
          \<or> (points u < points_to_deduct req
              \<and> (\<exists>g\<in>set (snd (after_calls w db uid req cfg)). status g = Completed)
              \<and> map status (returned (generate_image w db uid req))
                  = map (\<lambda>g. Failed) (snd (after_calls w db uid req cfg)))"
    by (elim disjE conjE) (simp_all add: returned_def comp_def successful_generations_pos)
qed

text \<open>
  The theorem on the run with balance 5, optimization requested, \<^verbatim>\<open>m1\<close> succeeding
  and \<^verbatim>\<open>m2\<close> failing: the statuses returned are those the loop left.
\<close>

theorem status_lifecycle_witness:
  "map status (snd (after_create (example_world (Raised (PyError ''ConnectError'')))
      (example_session 5 [example_config]) 1 (example_request True [''m1'', ''m2'']) example_config))
     = [Processing, Processing]
   \<and> map status (snd (after_calls (example_world (Raised (PyError ''ConnectError'')))
      (example_session 5 [example_config]) 1 (example_request True [''m1'', ''m2'']) example_config))
     = [Completed, Failed]
   \<and> map status (returned (generate_image (example_world (Raised (PyError ''ConnectError'')))
      (example_session 5 [example_config]) 1 (example_request True [''m1'', ''m2''])))
     = [Completed, Failed]"
proof -
  let ?w = "example_world (Raised (PyError ''ConnectError''))"
  let ?db = "example_session 5 [example_config]"
  let ?req = "example_request True [''m1'', ''m2'']"
  have u: "users ?db 1 = Some \<lparr>username = ''ann'', points = 5\<rparr>"
    by (simp add: example_session_def)
  have p: "1 \<le> points \<lparr>username = ''ann'', points = 5\<rparr>" by simp
  have c: "get_active_api_config ?db = Some example_config"
    by (simp add: get_active_api_config_def example_session_def example_config_def)
  have n: "\<not> points \<lparr>username = ''ann'', points = 5\<rparr> < points_to_deduct ?req"
    by (simp add: points_to_deduct_def)
  have 1: "map status (snd (after_create ?w ?db 1 ?req example_config)) = [Processing, Processing]"
    by (simp add: example_defs run_defs Let_def)
  have 2: "map status (snd (after_calls ?w ?db 1 ?req example_config)) = [Completed, Failed]"
    by (simp add: example_defs run_defs Let_def)
  from status_lifecycle [OF u p c, of ?w ?req] n
  have "map status (returned (generate_image ?w ?db 1 ?req))
            = map status (snd (after_calls ?w ?db 1 ?req example_config))"
    by blast
  with 1 2 show ?thesis by simp
qed

text \<open>
  Claim C10. The balance precondition is "at least 1" whatever the charge. With a balance
  of exactly 1 and \<^verbatim>\<open>enable_optimization\<close> true the call passes it; if a model then
  succeeds, the settlement debit of 2 is refused with the 400 "Insufficient points", which
  the handler of the batch catches: every record is returned \<^verbatim>\<open>failed\<close> with
  \<^verbatim>\<open>points_used\<close> 0 and that error text, one record per model, still carrying the
  image fields the provider calls had filled in; no account changes and nothing is
  debited.
\<close>

theorem surcharge_beyond_balance:
  assumes "users db uid = Some u" "points u = 1" "enable_optimization req"
    and "get_active_api_config db = Some cfg"
    and "\<exists>g\<in>set (snd (after_calls w db uid req cfg)). status g = Completed"
  shows "snd (generate_image w db uid req) =
           Inr (map (mark_failed (HTTPException 400 Insufficient_points))
                  (snd (after_calls w db uid req cfg)))
       \<and> (\<forall>g\<in>set (returned (generate_image w db uid req)).
             status g = Failed \<and> points_used g = 0
           \<and> error_message g = Some (Exception_text (HTTPException 400 Insufficient_points)))
       \<and> length (returned (generate_image w db uid req)) = length (models req)
       \<and> map image_url (returned (generate_image w db uid req))
           = map image_url (snd (after_calls w db uid req cfg))
       \<and> map base64_image (returned (generate_image w db uid req))
           = map base64_image (snd (after_calls w db uid req cfg))
       \<and> users (fst (generate_image w db uid req)) = users db
       \<and> debits (new_events db (fst (generate_image w db uid req))) = []"
proof -
  let ?r = "generate_image w db uid req"
  let ?gs = "snd (after_calls w db uid req cfg)"
  let ?e = "HTTPException 400 Insufficient_points"
  have pre: "users db uid = Some u" "1 \<le> points u" "get_active_api_config db = Some cfg"
    using assms by simp_all
  have pos: "0 < successful_generations ?gs"
    using assms(5) by (simp add: successful_generations_pos)
  have low: "points u < points_to_deduct req"
    using assms(2,3) by (simp add: points_to_deduct_def)
  note r = generate_image_debit_refused [OF pre pos low]
  have 1: "snd ?r = Inr (map (mark_failed ?e) ?gs)" by (simp add: r)
  have 2: "\<forall>g\<in>set (returned ?r). status g = Failed \<and> points_used g = 0
           \<and> error_message g = Some (Exception_text ?e)"
    by (auto simp add: r returned_def mark_failed_def)
  have 3: "length (returned ?r) = length (models req)"
    by (simp add: r returned_def after_calls_length)
  have 4: "map image_url (returned ?r) = map image_url ?gs"
    "map base64_image (returned ?r) = map base64_image ?gs"
    by (simp_all add: r returned_def mark_failed_def comp_def)
  have 5: "users (fst ?r) = users db"
    by (simp add: r commit_batch_fields after_calls_users)
  have 6: "debits (new_events db (fst ?r)) = []"
    by (rule new_events_debits_none) (simp add: r commit_batch_fields)
  from 1 2 3 4 5 6 show ?thesis by blast
qed

text \<open>The theorem at balance 1 with \<^verbatim>\<open>m1\<close> succeeding and \<^verbatim>\<open>m2\<close> failing.\<close>

theorem surcharge_beyond_balance_witness:
  "map status (returned (generate_image (example_world (Raised (PyError ''ConnectError'')))
      (example_session 1 [example_config]) 1 (example_request True [''m1'', ''m2''])))
     = [Failed, Failed]
   \<and> map image_url (returned (generate_image (example_world (Raised (PyError ''ConnectError'')))
      (example_session 1 [example_config]) 1 (example_request True [''m1'', ''m2''])))
     = [JStr ''https://img/1.png'', JNull]
   \<and> users (fst (generate_image (example_world (Raised (PyError ''ConnectError'')))
      (example_session 1 [example_config]) 1 (example_request True [''m1'', ''m2''])))
     = users (example_session 1 [example_config])
   \<and> debits (new_events (example_session 1 [example_config])
       (fst (generate_image (example_world (Raised (PyError ''ConnectError'')))
         (example_session 1 [example_config]) 1 (example_request True [''m1'', ''m2''])))) = []"
proof -
  let ?w = "example_world (Raised (PyError ''ConnectError''))"
  let ?db = "example_session 1 [example_config]"
  let ?req = "example_request True [''m1'', ''m2'']"
  have u: "users ?db 1 = Some \<lparr>username = ''ann'', points = 1\<rparr>"
    by (simp add: example_session_def)
  have p: "points \<lparr>username = ''ann'', points = 1\<rparr> = 1" by simp
  have o: "enable_optimization ?req" by (simp add: example_request_def)
  have c: "get_active_api_config ?db = Some example_config"
    by (simp add: get_active_api_config_def example_session_def example_config_def)
  have st: "map status (snd (after_calls ?w ?db 1 ?req example_config)) = [Completed, Failed]"
    by (simp add: example_defs run_defs Let_def)
  have h: "\<exists>g\<in>set (snd (after_calls ?w ?db 1 ?req example_config)). status g = Completed"
  proof -
    from st obtain g gs where "snd (after_calls ?w ?db 1 ?req example_config) = g # gs"
      "status g = Completed" by auto
    then show ?thesis by auto
  qed
  have iu: "map image_url (snd (after_calls ?w ?db 1 ?req example_config))
      = [JStr ''https://img/1.png'', JNull]"
    by (simp add: example_defs run_defs Let_def)
  note t = surcharge_beyond_balance [OF u p o c h]
  have 1: "map status (returned (generate_image ?w ?db 1 ?req)) = [Failed, Failed]"
    by (simp add: example_defs run_defs Let_def)
  from t iu have 2: "map image_url (returned (generate_image ?w ?db 1 ?req))
      = [JStr ''https://img/1.png'', JNull]"
    by simp
  from t have 3: "users (fst (generate_image ?w ?db 1 ?req)) = users ?db"
    and 4: "debits (new_events ?db (fst (generate_image ?w ?db 1 ?req))) = []"
    by blast+
  from 1 2 3 4 show ?thesis by blast
qed

section \<open>The optimizer\<close>

lemma image_calls_append: "image_calls (xs @ ys) = image_calls xs @ image_calls ys"
  by (induction xs rule: image_calls.induct) simp_all

lemma image_calls_map: "image_calls (map (\<lambda>m. Image_call b m p) ms) = map (\<lambda>m. Image_call b m p) ms"
  by (induction ms) simp_all

lemma optimize_prompt_fallback:
  assumes "optimizer_failed (chat_completions w (str_or url (default_api_base_url w))
             (str_or key (default_api_key w)) om (str_or sys (default_system_prompt w)) p)"
  shows "snd (optimize_prompt w db p om key url sys) = p"
proof (cases "chat_completions w (str_or url (default_api_base_url w))
             (str_or key (default_api_key w)) om (str_or sys (default_system_prompt w)) p")
  case (Raised e)
  then show ?thesis by (simp add: optimize_prompt_def Let_def)
next
  case (Replied r)
  with assms show ?thesis
    by (auto simp add: optimize_prompt_def Let_def split: option.splits)
qed

lemma optimize_prompt_image_calls:
  "\<exists>evs. fst (optimize_prompt w db p om key url sys) = db\<lparr>trace := trace db @ evs\<rparr>
        \<and> image_calls evs = []"
proof (cases "str_or key (default_api_key w) = []")
  case True
  then have "fst (optimize_prompt w db p om key url sys) = db\<lparr>trace := trace db @ []\<rparr>"
    by (simp add: optimize_prompt_def)
  then show ?thesis by (intro exI [of _ "[]"]) simp
next
  case False
  then have "fst (optimize_prompt w db p om key url sys) =
      db\<lparr>trace := trace db @ [Optimizer_call om (str_or sys (default_system_prompt w)) p]\<rparr>"
    by (simp add: optimize_prompt_def Let_def)
  then show ?thesis
    by (intro exI [of _ "[Optimizer_call om (str_or sys (default_system_prompt w)) p]"]) simp
qed

lemma resolve_prompt_image_calls:
  "\<exists>evs. fst (resolve_prompt w db req cfg) = db\<lparr>trace := trace db @ evs\<rparr>
        \<and> image_calls evs = []"
proof (cases "enable_optimization req
       \<and> truthy (py_or (req_optimizer_model req) (optimizer_model cfg))
       \<and> truthy (py_or (req_system_prompt req) (system_prompt cfg))")
  case True
  then show ?thesis
    using optimize_prompt_image_calls by (simp add: resolve_prompt_def Let_def)
next
  case False
  then have "fst (resolve_prompt w db req cfg) = db\<lparr>trace := trace db @ []\<rparr>"
    by (auto simp add: resolve_prompt_def Let_def)
  then show ?thesis by (intro exI [of _ "[]"]) simp
qed

lemma after_calls_image_calls:
  "image_calls (new_events db (fst (after_calls w db uid req cfg))) =
     map (\<lambda>m. Image_call (truthy (image_file req)) m (snd (resolve_prompt w db req cfg)))
       (models req)"
proof -
  obtain evs where e: "fst (resolve_prompt w db req cfg) = db\<lparr>trace := trace db @ evs\<rparr>"
    "image_calls evs = []"
    using resolve_prompt_image_calls by blast
  have m: "map (\<lambda>g. Image_call (truthy (image_file req)) (model g) (snd (resolve_prompt w db req cfg)))
             (snd (after_create w db uid req cfg)) =
           map (\<lambda>m. Image_call (truthy (image_file req)) m (snd (resolve_prompt w db req cfg)))
             (models req)"
    by (simp add: after_create_records new_generation_def comp_def)
  have "trace (fst (after_create w db uid req cfg)) = trace db @ evs"
    using e(1) by (simp add: after_create_def create_generations_def split_beta Let_def)
  then have "trace (fst (after_calls w db uid req cfg)) = trace db @ evs @
           map (\<lambda>m. Image_call (truthy (image_file req)) m (snd (resolve_prompt w db req cfg)))
             (models req)"
    unfolding after_calls_eq call_models_session m by simp
  then show ?thesis
    using e(2) by (simp add: new_events_def image_calls_append image_calls_map)
qed

lemma generate_image_image_calls:
  assumes "users db uid = Some u" "1 \<le> points u" "get_active_api_config db = Some cfg"
  shows "image_calls (new_events db (fst (generate_image w db uid req))) =
     map (\<lambda>m. Image_call (truthy (image_file req)) m (snd (resolve_prompt w db req cfg)))
       (models req)"
proof -
  have "trace (fst (generate_image w db uid req)) = trace (fst (after_calls w db uid req cfg))
      \<or> (\<exists>c. trace (fst (generate_image w db uid req)) =
            trace (fst (after_calls w db uid req cfg)) @ [Debit uid c])"
    using generate_image_settled [OF assms, of w req]
    by (elim disjE conjE) (simp_all add: commit_batch_fields)
  moreover obtain evs where "trace (fst (after_calls w db uid req cfg)) = trace db @ evs"
    using after_calls_debits by blast
  ultimately have "image_calls (new_events db (fst (generate_image w db uid req)))
      = image_calls (new_events db (fst (after_calls w db uid req cfg)))"
    by (auto simp add: new_events_def image_calls_append)
  then show ?thesis by (simp add: after_calls_image_calls)
qed

lemma generate_image_optimized_prompt:
  assumes "users db uid = Some u" "1 \<le> points u" "get_active_api_config db = Some cfg"
  shows "map optimized_prompt (returned (generate_image w db uid req)) =
     map (\<lambda>m. if snd (resolve_prompt w db req cfg) \<noteq> req_prompt req
               then Some (snd (resolve_prompt w db req cfg)) else None) (models req)"
proof -
  have a: "map optimized_prompt (snd (after_calls w db uid req cfg)) =
     map (\<lambda>m. if snd (resolve_prompt w db req cfg) \<noteq> req_prompt req
               then Some (snd (resolve_prompt w db req cfg)) else None) (models req)"
    by (simp add: after_calls_eq call_models_optimized_prompt after_create_records
        new_generation_def comp_def)
  have f: "optimized_prompt \<circ> no_charge = optimized_prompt"
    "\<And>e. optimized_prompt \<circ> mark_failed e = optimized_prompt"
    "\<And>c. optimized_prompt \<circ> charge_record c = optimized_prompt"
    by (auto simp add: no_charge_def mark_failed_def charge_record_def)
  from generate_image_settled [OF assms, of w req] show ?thesis
    by (elim disjE conjE) (simp_all add: returned_def f a)
qed

lemma resolve_prompt_value:
  "snd (resolve_prompt w db req cfg) =
     (if enable_optimization req
         \<and> truthy (py_or (req_optimizer_model req) (optimizer_model cfg))
         \<and> truthy (py_or (req_system_prompt req) (system_prompt cfg))
         \<and> str_or (Some (api_key cfg)) (default_api_key w) \<noteq> []
      then (case optimizer_outcome w req cfg of
              Raised e \<Rightarrow> req_prompt req
            | Replied r \<Rightarrow>
                if status_code r = 200 then
                  (case Option.bind (json_body r) optimized_content of
                     None \<Rightarrow> req_prompt req
                   | Some optimized \<Rightarrow> if optimized \<noteq> [] then optimized else req_prompt req)
                else req_prompt req)
      else req_prompt req)"
  by (simp add: resolve_prompt_def optimize_prompt_def optimizer_outcome_def Let_def)

lemma resolve_prompt_failed:
  "optimizer_failed (optimizer_outcome w req cfg) \<Longrightarrow>
     snd (resolve_prompt w db req cfg) = req_prompt req"
  by (cases "optimizer_outcome w req cfg")
     (auto simp add: resolve_prompt_value split: option.splits)

lemma resolve_prompt_echo:
  "optimizer_outcome w req cfg = Replied r \<Longrightarrow> status_code r = 200 \<Longrightarrow>
   Option.bind (json_body r) message_content = Some (JStr t) \<Longrightarrow> strip t = req_prompt req \<Longrightarrow>
     snd (resolve_prompt w db req cfg) = req_prompt req"
  by (cases "json_body r") (auto simp add: resolve_prompt_value optimized_content_def)

lemma resolve_prompt_stored:
  "enable_optimization req \<Longrightarrow>
   truthy (py_or (req_optimizer_model req) (optimizer_model cfg)) \<Longrightarrow>
   truthy (py_or (req_system_prompt req) (system_prompt cfg)) \<Longrightarrow>
   str_or (Some (api_key cfg)) (default_api_key w) \<noteq> [] \<Longrightarrow>
   optimizer_outcome w req cfg = Replied r \<Longrightarrow> status_code r = 200 \<Longrightarrow>
   Option.bind (json_body r) message_content = Some (JStr t) \<Longrightarrow> strip t \<noteq> [] \<Longrightarrow>
     snd (resolve_prompt w db req cfg) = strip t"
  by (cases "json_body r") (auto simp add: resolve_prompt_value optimized_content_def)

lemma optimized_prompt_all_none:
  "map optimized_prompt gs = map (\<lambda>m. None) ms \<Longrightarrow> g \<in> set gs \<Longrightarrow> optimized_prompt g = None"
proof -
  assume a: "map optimized_prompt gs = map (\<lambda>m. None) ms" and g: "g \<in> set gs"
  from g have "optimized_prompt g \<in> set (map optimized_prompt gs)" by simp
  with a show ?thesis by auto
qed

text \<open>
  Claim C8, as stated, fails in its last part: the prompt \<^verbatim>\<open>" a cat "\<close> has blanks
  around it, the optimizer sends back exactly that text, and the record stores the
  stripped text \<^verbatim>\<open>"a cat"\<close> as its optimized prompt.
\<close>

theorem echoed_prompt_stored_counterexample:
  "Option.bind (json_body (chat_response '' a cat '')) message_content
     = Some (JStr (req_prompt ((example_request True [''m1''])\<lparr>req_prompt := '' a cat ''\<rparr>)))
   \<and> map optimized_prompt (returned (generate_image
        (example_world (Replied (chat_response '' a cat '')))
        (example_session 5 [example_config]) 1
        ((example_request True [''m1''])\<lparr>req_prompt := '' a cat ''\<rparr>)))
     = [Some ''a cat'']"
  by (simp add: example_defs run_defs Let_def strip_def is_space_def)

text \<open>
  Claim C8, as amended. When the optimizer call raises (transport error, timeout), answers
  with a status other than 200 or yields no text, \<^verbatim>\<open>optimize_prompt\<close> returns the
  prompt it was given. When the optimizer call of a request fails in one of these ways, a
  call of \<^verbatim>\<open>generate_image\<close> that passes its preconditions still makes one image call
  per requested model, in order, each with the original prompt, and returns one record
  per model, with \<^verbatim>\<open>optimized_prompt\<close> null. Whenever the optimizer's output text,
  once its leading and trailing whitespace is stripped, is identical to the request's
  prompt, the records are created, and returned, with \<^verbatim>\<open>optimized_prompt\<close> null.
  An output whose stripped text is not empty and differs from the prompt is stored,
  stripped, in every record; this includes an output identical to a prompt that itself
  begins or ends with whitespace.
\<close>

theorem optimizer_fallback:
  "(optimizer_failed (chat_completions w (str_or url (default_api_base_url w))
        (str_or key (default_api_key w)) om (str_or sys (default_system_prompt w)) p) \<longrightarrow>
      snd (optimize_prompt w db p om key url sys) = p)
   \<and> (users db uid = Some u \<and> 1 \<le> points u \<and> get_active_api_config db = Some cfg
      \<and> optimizer_failed (optimizer_outcome w req cfg) \<longrightarrow>
        image_calls (new_events db (fst (generate_image w db uid req))) =
          map (\<lambda>m. Image_call (truthy (image_file req)) m (req_prompt req)) (models req)
      \<and> length (returned (generate_image w db uid req)) = length (models req)
      \<and> (\<forall>g\<in>set (returned (generate_image w db uid req)). optimized_prompt g = None))
   \<and> (users db uid = Some u \<and> 1 \<le> points u \<and> get_active_api_config db = Some cfg
      \<and> optimizer_outcome w req cfg = Replied r \<and> status_code r = 200
      \<and> Option.bind (json_body r) message_content = Some (JStr t)
      \<and> strip t = req_prompt req \<longrightarrow>
        (\<forall>g\<in>set (snd (after_create w db uid req cfg)). optimized_prompt g = None)
      \<and> (\<forall>g\<in>set (returned (generate_image w db uid req)). optimized_prompt g = None))
   \<and> (users db uid = Some u \<and> 1 \<le> points u \<and> get_active_api_config db = Some cfg
      \<and> enable_optimization req
      \<and> truthy (py_or (req_optimizer_model req) (optimizer_model cfg))
      \<and> truthy (py_or (req_system_prompt req) (system_prompt cfg))
      \<and> str_or (Some (api_key cfg)) (default_api_key w) \<noteq> []
      \<and> optimizer_outcome w req cfg = Replied r \<and> status_code r = 200
      \<and> Option.bind (json_body r) message_content = Some (JStr t)
      \<and> strip t \<noteq> [] \<and> strip t \<noteq> req_prompt req \<longrightarrow>
        map optimized_prompt (returned (generate_image w db uid req))
          = map (\<lambda>m. Some (strip t)) (models req))"
proof (intro conjI impI)
  assume "optimizer_failed (chat_completions w (str_or url (default_api_base_url w))
        (str_or key (default_api_key w)) om (str_or sys (default_system_prompt w)) p)"
  then show "snd (optimize_prompt w db p om key url sys) = p"
    by (rule optimize_prompt_fallback)
next
  assume a: "users db uid = Some u \<and> 1 \<le> points u \<and> get_active_api_config db = Some cfg
      \<and> optimizer_failed (optimizer_outcome w req cfg)"
  then have pre: "users db uid = Some u" "1 \<le> points u" "get_active_api_config db = Some cfg"
    and p: "snd (resolve_prompt w db req cfg) = req_prompt req"
    by (simp_all add: resolve_prompt_failed)
  show "image_calls (new_events db (fst (generate_image w db uid req))) =
          map (\<lambda>m. Image_call (truthy (image_file req)) m (req_prompt req)) (models req)"
    using generate_image_image_calls [OF pre, of w req] by (simp add: p)
  have m: "map optimized_prompt (returned (generate_image w db uid req)) = map (\<lambda>m. None) (models req)"
    using generate_image_optimized_prompt [OF pre, of w req] by (simp add: p)
  from m show "length (returned (generate_image w db uid req)) = length (models req)"
    by (auto dest: map_eq_imp_length_eq)
  from m show "\<forall>g\<in>set (returned (generate_image w db uid req)). optimized_prompt g = None"
    by (blast intro: optimized_prompt_all_none)
next
  assume a: "users db uid = Some u \<and> 1 \<le> points u \<and> get_active_api_config db = Some cfg
      \<and> optimizer_outcome w req cfg = Replied r \<and> status_code r = 200
      \<and> Option.bind (json_body r) message_content = Some (JStr t)
      \<and> strip t = req_prompt req"
  then have pre: "users db uid = Some u" "1 \<le> points u" "get_active_api_config db = Some cfg"
    by simp_all
  from a have p: "snd (resolve_prompt w db req cfg) = req_prompt req"
    by (blast intro: resolve_prompt_echo)
  show "\<forall>g\<in>set (snd (after_create w db uid req cfg)). optimized_prompt g = None"
    by (auto simp add: after_create_records new_generation_def p)
  have m: "map optimized_prompt (returned (generate_image w db uid req)) = map (\<lambda>m. None) (models req)"
    using generate_image_optimized_prompt [OF pre, of w req] by (simp add: p)
  then show "\<forall>g\<in>set (returned (generate_image w db uid req)). optimized_prompt g = None"
    by (blast intro: optimized_prompt_all_none)
next
  assume a: "users db uid = Some u \<and> 1 \<le> points u \<and> get_active_api_config db = Some cfg
      \<and> enable_optimization req
      \<and> truthy (py_or (req_optimizer_model req) (optimizer_model cfg))
      \<and> truthy (py_or (req_system_prompt req) (system_prompt cfg))
      \<and> str_or (Some (api_key cfg)) (default_api_key w) \<noteq> []
      \<and> optimizer_outcome w req cfg = Replied r \<and> status_code r = 200
      \<and> Option.bind (json_body r) message_content = Some (JStr t)
      \<and> strip t \<noteq> [] \<and> strip t \<noteq> req_prompt req"
  then have pre: "users db uid = Some u" "1 \<le> points u" "get_active_api_config db = Some cfg"
    by simp_all
  from a have p: "snd (resolve_prompt w db req cfg) = strip t"
    by (blast intro: resolve_prompt_stored)
  from a have n: "strip t \<noteq> req_prompt req" by simp
  show "map optimized_prompt (returned (generate_image w db uid req))
          = map (\<lambda>m. Some (strip t)) (models req)"
    using generate_image_optimized_prompt [OF pre, of w req] n by (simp add: p)
qed

text \<open>
  The theorem on four runs: the optimizer answers 500; the optimizer call raises and two
  models are requested; the optimizer answers the prompt padded with blanks; the
  optimizer answers another text.
\<close>

theorem optimizer_fallback_witness:
  "snd (optimize_prompt (example_world (Replied error_response)) (example_session 5 [example_config])
          ''a cat'' ''gpt-4o-mini'' (Some ''sk-test'') None None) = ''a cat''
   \<and> image_calls (new_events (example_session 5 [example_config])
        (fst (generate_image (example_world (Raised (PyError ''ConnectError'')))
           (example_session 5 [example_config]) 1 (example_request True [''m1'', ''m2'']))))
       = [Image_call False ''m1'' ''a cat'', Image_call False ''m2'' ''a cat'']
   \<and> map optimized_prompt (returned (generate_image
          (example_world (Replied (chat_response ''  a cat '')))
          (example_session 5 [example_config]) 1 (example_request True [''m1''])))
       = [None]
   \<and> map optimized_prompt (returned (generate_image
          (example_world (Replied (chat_response ''a fluffy cat '')))
          (example_session 5 [example_config]) 1 (example_request True [''m1''])))
       = [Some ''a fluffy cat'']"
proof -
  let ?db = "example_session 5 [example_config]"
  let ?u = "\<lparr>username = ''ann'', points = 5\<rparr>"
  let ?we = "example_world (Replied error_response)"
  let ?wr = "example_world (Raised (PyError ''ConnectError''))"
  let ?ws = "example_world (Replied (chat_response ''  a cat ''))"
  let ?wf = "example_world (Replied (chat_response ''a fluffy cat ''))"
  let ?req2 = "example_request True [''m1'', ''m2'']"
  let ?req1 = "example_request True [''m1'']"
  have pre: "users ?db 1 = Some ?u \<and> 1 \<le> points ?u
      \<and> get_active_api_config ?db = Some example_config"
    by (simp add: get_active_api_config_def example_session_def example_config_def)
  have f1: "optimizer_failed (chat_completions ?we (str_or None (default_api_base_url ?we))
        (str_or (Some ''sk-test'') (default_api_key ?we)) ''gpt-4o-mini''
        (str_or None (default_system_prompt ?we)) ''a cat'')"
    by (simp add: example_world_def error_response_def)
  from optimizer_fallback [of ?we None "Some ''sk-test''" "''gpt-4o-mini''" None "''a cat''" ?db] f1
  have 1: "snd (optimize_prompt ?we ?db ''a cat'' ''gpt-4o-mini'' (Some ''sk-test'') None None) = ''a cat''"
    by blast
  have f2: "optimizer_failed (optimizer_outcome ?wr ?req2 example_config)"
    by (simp add: optimizer_outcome_def example_world_def)
  from optimizer_fallback [of ?wr _ _ _ _ _ ?db 1 ?u example_config ?req2] pre f2
  have "image_calls (new_events ?db (fst (generate_image ?wr ?db 1 ?req2))) =
          map (\<lambda>m. Image_call (truthy (image_file ?req2)) m (req_prompt ?req2)) (models ?req2)"
    by blast
  then have 2: "image_calls (new_events ?db (fst (generate_image ?wr ?db 1 ?req2)))
       = [Image_call False ''m1'' ''a cat'', Image_call False ''m2'' ''a cat'']"
    by (simp add: example_request_def truthy_def)
  have s: "strip ''  a cat '' = ''a cat''" "strip ''a fluffy cat '' = ''a fluffy cat''"
    by (simp_all add: strip_def is_space_def)
  have f3: "optimizer_outcome ?ws ?req1 example_config = Replied (chat_response ''  a cat '')
      \<and> status_code (chat_response ''  a cat '') = 200
      \<and> Option.bind (json_body (chat_response ''  a cat '')) message_content
          = Some (JStr ''  a cat '')
      \<and> strip ''  a cat '' = req_prompt ?req1"
    by (simp add: optimizer_outcome_def example_world_def chat_response_def message_content_def
        example_request_def s)
  from optimizer_fallback [of ?ws _ _ _ _ _ ?db 1 ?u example_config ?req1
      "chat_response ''  a cat ''" "''  a cat ''"] pre f3
  have a: "\<forall>g\<in>set (returned (generate_image ?ws ?db 1 ?req1)). optimized_prompt g = None"
    by blast
  have "map model (returned (generate_image ?ws ?db 1 ?req1)) = [''m1'']"
    by (simp add: example_defs run_defs Let_def s)
  then obtain g where "returned (generate_image ?ws ?db 1 ?req1) = [g]" by auto
  with a have 3: "map optimized_prompt (returned (generate_image ?ws ?db 1 ?req1)) = [None]"
    by simp
  have f4: "enable_optimization ?req1
      \<and> truthy (py_or (req_optimizer_model ?req1) (optimizer_model example_config))
      \<and> truthy (py_or (req_system_prompt ?req1) (system_prompt example_config))
      \<and> str_or (Some (api_key example_config)) (default_api_key ?wf) \<noteq> []
      \<and> optimizer_outcome ?wf ?req1 example_config = Replied (chat_response ''a fluffy cat '')
      \<and> status_code (chat_response ''a fluffy cat '') = 200
      \<and> Option.bind (json_body (chat_response ''a fluffy cat '')) message_content
          = Some (JStr ''a fluffy cat '')
      \<and> strip ''a fluffy cat '' \<noteq> [] \<and> strip ''a fluffy cat '' \<noteq> req_prompt ?req1"
    by (simp add: optimizer_outcome_def example_world_def chat_response_def message_content_def
        example_request_def example_config_def truthy_def py_or_def str_or_def s)
  from optimizer_fallback [of ?wf _ _ _ _ _ ?db 1 ?u example_config ?req1
      "chat_response ''a fluffy cat ''" "''a fluffy cat ''"] pre f4
  have "map optimized_prompt (returned (generate_image ?wf ?db 1 ?req1))
          = map (\<lambda>m. Some (strip ''a fluffy cat '')) (models ?req1)"
    by blast
  then have 4: "map optimized_prompt (returned (generate_image ?wf ?db 1 ?req1))
       = [Some ''a fluffy cat'']"
    by (simp add: s example_request_def)
  from 1 2 3 4 show ?thesis by blast
qed

section \<open>Extraction of the image payload\<close>

text \<open>
  On a response whose \<^verbatim>\<open>data\<close> is a list that starts with an object, the fields are
  tried in the order \<^verbatim>\<open>b64_json\<close>, \<^verbatim>\<open>url\<close>, \<^verbatim>\<open>image_url\<close>, and the first one
  that is a key of the object is returned, the last of them under the key \<^verbatim>\<open>url\<close>.
  The test is on the key, not on its value.
\<close>

lemma extract_image_data_priority:
  assumes "py_get response ''data'' (JArr []) = Some (JArr (JObj item # rest))"
  shows "extract_image_data response =
     Inr (case map_of (rev item) ''b64_json'' of
            Some v \<Rightarrow> Some (''b64_json'', v)
          | None \<Rightarrow>
              (case map_of (rev item) ''url'' of
                 Some v \<Rightarrow> Some (''url'', v)
               | None \<Rightarrow>
                   (case map_of (rev item) ''image_url'' of
                      Some v \<Rightarrow> Some (''url'', v)
                    | None \<Rightarrow> None)))"
proof -
  have k: "\<And>k. (k \<in> fst ` set item) = (map_of (rev item) k \<noteq> None)"
    by (simp add: map_of_eq_None_iff)
  show ?thesis
    using assms by (auto simp add: extract_image_data_def k split: option.splits)
qed

lemma null_payload_record:
  "status (record_result w 0
      (snd (call_ai_api (w\<lparr>images := (\<lambda>i edit m p. Replied null_b64_response)\<rparr>) db 0
              (example_request False [''m1'']) ''a cat'' ''m1'' example_config)) g) = Completed
   \<and> image_url (record_result w 0
      (snd (call_ai_api (w\<lparr>images := (\<lambda>i edit m p. Replied null_b64_response)\<rparr>) db 0
              (example_request False [''m1'']) ''a cat'' ''m1'' example_config)) g) = JNull
   \<and> base64_image (record_result w 0
      (snd (call_ai_api (w\<lparr>images := (\<lambda>i edit m p. Replied null_b64_response)\<rparr>) db 0
              (example_request False [''m1'']) ''a cat'' ''m1'' example_config)) g) = JNull"
  by (simp add: call_ai_api_def extract_image_data_def image_data_get_def record_result_def
      null_b64_response_def example_request_def truthy_def Let_def)

text \<open>
  Claim C9, at an input where the code departs from it. The provider answers 200 with
  \<^verbatim>\<open>{"data": [{"b64_json": null, "url": "https://img/1.png"}]}\<close>. The key
  \<^verbatim>\<open>b64_json\<close> is present, so it wins over \<^verbatim>\<open>url\<close> although it holds no payload;
  the one-entry dict returned is truthy, so the call counts as a success. The record is
  marked \<^verbatim>\<open>completed\<close> with a completion time, with neither
  \<^verbatim>\<open>image_url\<close> nor \<^verbatim>\<open>base64_image\<close> populated, and the batch is charged 1 point.
  The claim asks for exactly one of the two fields to be populated on a completed record.
\<close>

theorem null_payload_run:
  "map status (returned (generate_image
       ((example_world (Raised (PyError ''ConnectError'')))
          \<lparr>images := (\<lambda>i edit m p. Replied null_b64_response)\<rparr>)
       (example_session 5 [example_config]) 1 (example_request False [''m1''])))
     = [Completed]
   \<and> map image_url (returned (generate_image
       ((example_world (Raised (PyError ''ConnectError'')))
          \<lparr>images := (\<lambda>i edit m p. Replied null_b64_response)\<rparr>)
       (example_session 5 [example_config]) 1 (example_request False [''m1''])))
     = [JNull]
   \<and> map base64_image (returned (generate_image
       ((example_world (Raised (PyError ''ConnectError'')))
          \<lparr>images := (\<lambda>i edit m p. Replied null_b64_response)\<rparr>)
       (example_session 5 [example_config]) 1 (example_request False [''m1''])))
     = [JNull]
   \<and> map completed_at (returned (generate_image
       ((example_world (Raised (PyError ''ConnectError'')))
          \<lparr>images := (\<lambda>i edit m p. Replied null_b64_response)\<rparr>)
       (example_session 5 [example_config]) 1 (example_request False [''m1''])))
     = [Some 1000]
   \<and> map points_used (returned (generate_image
       ((example_world (Raised (PyError ''ConnectError'')))
          \<lparr>images := (\<lambda>i edit m p. Replied null_b64_response)\<rparr>)
       (example_session 5 [example_config]) 1 (example_request False [''m1''])))
     = [1]
   \<and> balance (fst (generate_image
       ((example_world (Raised (PyError ''ConnectError'')))
          \<lparr>images := (\<lambda>i edit m p. Replied null_b64_response)\<rparr>)
       (example_session 5 [example_config]) 1 (example_request False [''m1'']))) 1
     = Some 4"
  by (simp add: example_defs run_defs Let_def)

end
